theory Spec2Isabelle
  imports Complex_Main "HOL-Library.Word" "HOL-Library.Sublist"
begin

section \<open>Python values, exceptions and builtins used by the session code\<close>

text \<open>
  The interactive session of \<^verbatim>\<open>latch_cli/services/execute.py\<close> works on raw bytes
  (Python \<^verbatim>\<open>bytes\<close>: a list of 8-bit words), on text (Python \<^verbatim>\<open>str\<close>: modelled as
  \<^typ>\<open>string\<close>, characters beyond ASCII are not interpreted) and on the values that
  \<^verbatim>\<open>json.loads\<close> and \<^verbatim>\<open>response.json()\<close> produce. A dict is an association list
  read with \<^const>\<open>map_of\<close>: the first binding of a key is the one that counts.
\<close>

type_synonym bytes = "8 word list"

datatype pyfloat = Finite rat | PosInf | NegInf | NaN

datatype json =
    JNull
  | JBool bool
  | JInt int
  | JFloat pyfloat
  | JStr string
  | JList "json list"
  | JDict "(string \<times> json) list"

text \<open>
  Exceptions are values. \<open>MalformedResponse\<close> is the \<^verbatim>\<open>ValueError\<close> raised at line 91 of
  \<^verbatim>\<open>execute.py\<close> (it carries the response it complains about); \<open>ValueError\<close> is the one
  raised by \<^verbatim>\<open>int()\<close>; \<open>EnvError\<close> stands for any exception raised by a library call
  whose cause lies outside the program (transport failure, undecodable JSON, refused
  connection). All of them derive from Python's \<^verbatim>\<open>Exception\<close>; \<^verbatim>\<open>SystemExit\<close> does not and
  is an outcome of its own below.
\<close>

datatype exn =
    KeyError string
  | TypeError
  | IndexError
  | ValueError
  | OverflowError
  | MalformedResponse json
  | EnvError string

text \<open>\<^verbatim>\<open>v[k]\<close> for a string key \<open>k\<close>: only a dict can be subscripted by a string.\<close>

fun subscript :: "json \<Rightarrow> string \<Rightarrow> exn + json" where
  "subscript (JDict kvs) k = (case map_of kvs k of None \<Rightarrow> Inl (KeyError k) | Some v \<Rightarrow> Inr v)"
| "subscript _ k = Inl TypeError"

text \<open>
  \<^verbatim>\<open>for x in v\<close>: a list yields its elements, a dict its keys, a string its characters
  (as one-character strings); nothing else is iterable.
\<close>

fun py_iter :: "json \<Rightarrow> exn + json list" where
  "py_iter (JList xs) = Inr xs"
| "py_iter (JDict kvs) = Inr (map (\<lambda>kv. JStr (fst kv)) kvs)"
| "py_iter (JStr s) = Inr (map (\<lambda>c. JStr [c]) s)"
| "py_iter _ = Inl TypeError"

text \<open>
  \<^verbatim>\<open>int(s)\<close> for a string, base 10: surrounding ASCII whitespace is stripped, one sign is
  allowed, then decimal digits with single underscores between digits. Digits and
  spaces beyond ASCII, and the limit recent interpreters put on the number of digits,
  are left out.
\<close>

definition is_space :: "char \<Rightarrow> bool" where
  "is_space c = (let n = (of_char c :: nat) in (9 \<le> n \<and> n \<le> 13) \<or> n = 32)"

definition is_digit :: "char \<Rightarrow> bool" where
  "is_digit c = (let n = (of_char c :: nat) in 48 \<le> n \<and> n \<le> 57)"

definition digit_val :: "char \<Rightarrow> nat" where
  "digit_val c = (of_char c :: nat) - 48"

definition strip :: "string \<Rightarrow> string" where
  "strip s = rev (dropWhile is_space (rev (dropWhile is_space s)))"

fun parse_digits :: "nat \<Rightarrow> string \<Rightarrow> nat option" where
  "parse_digits acc [] = Some acc"
| "parse_digits acc [c] = (if is_digit c then Some (acc * 10 + digit_val c) else None)"
| "parse_digits acc (c # d # ds) =
     (if is_digit c then parse_digits (acc * 10 + digit_val c) (d # ds)
      else if c = CHR ''_'' \<and> is_digit d then parse_digits (acc * 10 + digit_val d) ds
      else None)"

definition parse_unsigned :: "string \<Rightarrow> nat option" where
  "parse_unsigned s =
     (case s of
        [] \<Rightarrow> None
      | c # cs \<Rightarrow> if is_digit c then parse_digits (digit_val c) cs else None)"

definition int_of_str :: "string \<Rightarrow> exn + int" where
  "int_of_str s =
     (let t = strip s;
          r = (case t of
                 [] \<Rightarrow> None
               | c # cs \<Rightarrow>
                   if c = CHR ''-'' then map_option (\<lambda>n. - int n) (parse_unsigned cs)
                   else if c = CHR ''+'' then map_option int (parse_unsigned cs)
                   else map_option int (parse_unsigned t))
      in case r of None \<Rightarrow> Inl ValueError | Some i \<Rightarrow> Inr i)"

text \<open>\<^verbatim>\<open>int(v)\<close> for any value: floats truncate towards zero, booleans are 0 and 1.\<close>

fun py_int :: "json \<Rightarrow> exn + int" where
  "py_int (JInt i) = Inr i"
| "py_int (JBool b) = Inr (if b then 1 else 0)"
| "py_int (JFloat (Finite q)) = Inr (if q < 0 then - \<lfloor>- q\<rfloor> else \<lfloor>q\<rfloor>)"
| "py_int (JFloat NaN) = Inl ValueError"
| "py_int (JFloat _) = Inl OverflowError"
| "py_int (JStr s) = int_of_str s"
| "py_int _ = Inl TypeError"

section \<open>The IO pump: lines 153--211 of \<^verbatim>\<open>execute\<close>\<close>

text \<open>
  How a run of \<^verbatim>\<open>execute\<close> ends: it returns a value, it calls \<^verbatim>\<open>sys.exit\<close>, it raises an
  exception, or it does not end: the loop is back in \<^verbatim>\<open>select\<close> when the observed
  schedule is exhausted (\<open>Polling\<close>), or \<^verbatim>\<open>recv_data_frame\<close> waits for a frame that
  never comes (\<open>RecvBlocked\<close>).
\<close>

datatype outcome =
    Returned int
  | SysExit int
  | Raised exn
  | Polling
  | RecvBlocked

text \<open>What \<^verbatim>\<open>print(..., file=sys.stderr)\<close> emits, one value per call; the rendering of
  the interpolated values into text is not modelled.\<close>

datatype diag =
    Blank
  | StatusMessage json json
  | UnexpectedChannel "8 word"
  | DataLine bytes
  | UnexpectedOpcode nat

datatype fd = Sock | Stdin

text \<open>What one call of \<^verbatim>\<open>wssock.recv_data_frame(True)\<close> yields: an opcode with the frame's
  data, or an exception of the transport.\<close>

datatype recv = Frame nat bytes | RecvRaises exn

definition OPCODE_BINARY :: nat where "OPCODE_BINARY = 2"
definition OPCODE_CLOSE :: nat where "OPCODE_CLOSE = 8"

definition STDIN_CHANNEL :: "8 word" where "STDIN_CHANNEL = 0"
definition STDOUT_CHANNEL :: "8 word" where "STDOUT_CHANNEL = 1"
definition STDERR_CHANNEL :: "8 word" where "STDERR_CHANNEL = 2"
definition ERROR_CHANNEL :: "8 word" where "ERROR_CHANNEL = 3"

text \<open>
  The state the loop works on. \<open>stdin_in\<close> and \<open>sock_in\<close> are the environment's pending
  input: the bursts of bytes the terminal will deliver and the results the socket will
  deliver, in order. \<open>sent\<close>, \<open>stdout_w\<close>, \<open>stderr_w\<close> and \<open>printed\<close> record, in call order,
  the arguments of \<^verbatim>\<open>wssock.send\<close>, \<^verbatim>\<open>os.write(stdout, _)\<close>, \<^verbatim>\<open>os.write(stderr, _)\<close> and
  \<^verbatim>\<open>print(_, file=sys.stderr)\<close>; the calls themselves are taken to succeed.
  \<open>sock_closed\<close> records \<^verbatim>\<open>wssock.close()\<close>.
\<close>

record pump_state =
  rlist :: "fd list"
  stdin_in :: "bytes list"
  sock_in :: "recv list"
  sent :: "(nat \<times> bytes) list"
  stdout_w :: "bytes list"
  stderr_w :: "bytes list"
  printed :: "diag list"
  sock_closed :: bool

text \<open>\<^verbatim>\<open>os.read(fd, n)\<close>: at most \<open>n\<close> bytes of the next burst; nothing pending is
  end-of-input and reads as the empty byte string.\<close>

fun os_read :: "nat \<Rightarrow> bytes list \<Rightarrow> bytes \<times> bytes list" where
  "os_read n [] = ([], [])"
| "os_read n (b # bs) = (take n b, if drop n b = [] then bs else drop n b # bs)"

text \<open>\<^verbatim>\<open>select.select(rlist, [], [])\<close>: the watched descriptors that are ready.\<close>

definition select :: "fd list \<Rightarrow> fd list \<Rightarrow> fd list" where
  "select rl ready = filter (\<lambda>f. f \<in> set ready) rl"

text \<open>Lines 191--193: the \<^verbatim>\<open>for cause in ...\<close> loop; \<open>None\<close> when it falls through.\<close>

fun scan_causes :: "json list \<Rightarrow> exn + int option" where
  "scan_causes [] = Inr None"
| "scan_causes (cause # rest) =
     (case subscript cause ''reason'' of
        Inl e \<Rightarrow> Inl e
      | Inr r \<Rightarrow>
          if r = JStr ''ExitCode'' then
            (case subscript cause ''message'' of
               Inl e \<Rightarrow> Inl e
             | Inr m \<Rightarrow> (case py_int m of Inl e \<Rightarrow> Inl e | Inr i \<Rightarrow> Inr (Some i)))
          else scan_causes rest)"

text \<open>Lines 194--200: the generic failure report. The first blank line is printed before
  the f-string is evaluated.\<close>

definition report_failure :: "json \<Rightarrow> diag list \<times> outcome" where
  "report_failure error =
     (case subscript error ''status'' of
        Inl e \<Rightarrow> ([Blank], Raised e)
      | Inr s \<Rightarrow>
          (case subscript error ''message'' of
             Inl e \<Rightarrow> ([Blank], Raised e)
           | Inr m \<Rightarrow> ([Blank, StatusMessage s m, Blank], SysExit 1)))"

text \<open>Lines 188--200, on the value \<^verbatim>\<open>json.loads\<close> returned.\<close>

definition decode_status :: "json \<Rightarrow> diag list \<times> outcome" where
  "decode_status error =
     (case subscript error ''status'' of
        Inl e \<Rightarrow> ([], Raised e)
      | Inr s \<Rightarrow>
          if s = JStr ''Success'' then ([], Returned 0)
          else
            (case subscript error ''reason'' of
               Inl e \<Rightarrow> ([], Raised e)
             | Inr r \<Rightarrow>
                 if r = JStr ''NonZeroExitCode'' then
                   (case subscript error ''details'' of
                      Inl e \<Rightarrow> ([], Raised e)
                    | Inr d \<Rightarrow>
                        (case subscript d ''causes'' of
                           Inl e \<Rightarrow> ([], Raised e)
                         | Inr cs \<Rightarrow>
                             (case py_iter cs of
                                Inl e \<Rightarrow> ([], Raised e)
                              | Inr causes \<Rightarrow>
                                  (case scan_causes causes of
                                     Inl e \<Rightarrow> ([], Raised e)
                                   | Inr (Some i) \<Rightarrow> ([], Returned i)
                                   | Inr None \<Rightarrow> report_failure error))))
                 else report_failure error))"

text \<open>Lines 167--170.\<close>

definition handle_stdin :: "fd list \<Rightarrow> pump_state \<Rightarrow> pump_state" where
  "handle_stdin rs st =
     (if Stdin \<in> set rs then
        (case os_read (32 * 1024) (stdin_in st) of
           (data, pending) \<Rightarrow>
             let st1 = st\<lparr>stdin_in := pending\<rparr> in
             if length data > 0
             then st1\<lparr>sent := sent st1 @ [(OPCODE_BINARY, STDIN_CHANNEL # data)]\<rparr>
             else st1)
      else st)"

text \<open>Lines 177--206: a binary frame. \<open>loads\<close> is \<^verbatim>\<open>json.loads\<close>, a parameter.\<close>

definition handle_binary ::
  "(bytes \<Rightarrow> exn + json) \<Rightarrow> bytes \<Rightarrow> pump_state \<Rightarrow> pump_state \<times> outcome option" where
  "handle_binary loads fdata st =
     (case fdata of
        [] \<Rightarrow> (st, Some (Raised IndexError))
      | channel # data \<Rightarrow>
          if channel = STDOUT_CHANNEL \<or> channel = STDERR_CHANNEL then
            (if length data \<noteq> 0 then
               (if channel = STDOUT_CHANNEL
                then (st\<lparr>stdout_w := stdout_w st @ [data]\<rparr>, None)
                else (st\<lparr>stderr_w := stderr_w st @ [data]\<rparr>, None))
             else (st, None))
          else if channel = ERROR_CHANNEL then
            (let st1 = st\<lparr>sock_closed := True\<rparr> in
             case loads data of
               Inl e \<Rightarrow> (st1, Some (Raised e))
             | Inr error \<Rightarrow>
                 (case decode_status error of
                    (lines, out) \<Rightarrow> (st1\<lparr>printed := printed st1 @ lines\<rparr>, Some out)))
          else
            (st\<lparr>printed := printed st @ [Blank, UnexpectedChannel channel, DataLine data, Blank]\<rparr>,
             Some (SysExit 1)))"

text \<open>Lines 172--211.\<close>

definition handle_sock ::
  "(bytes \<Rightarrow> exn + json) \<Rightarrow> fd list \<Rightarrow> pump_state \<Rightarrow> pump_state \<times> outcome option" where
  "handle_sock loads rs st =
     (if Sock \<in> set rs then
        (case sock_in st of
           [] \<Rightarrow> (st, Some RecvBlocked)
         | r # pending \<Rightarrow>
             let st1 = st\<lparr>sock_in := pending\<rparr> in
             (case r of
                RecvRaises e \<Rightarrow> (st1, Some (Raised e))
              | Frame opcode fdata \<Rightarrow>
                  if opcode = OPCODE_CLOSE then (st1\<lparr>rlist := remove1 Sock (rlist st1)\<rparr>, None)
                  else if opcode = OPCODE_BINARY then handle_binary loads fdata st1
                  else
                    (st1\<lparr>printed := printed st1 @ [Blank, UnexpectedOpcode opcode, Blank]\<rparr>,
                     Some (SysExit 1))))
      else (st, None))"

text \<open>One pass through the body of \<^verbatim>\<open>while True\<close>; \<open>ready\<close> is what the environment has
  ready when \<^verbatim>\<open>select\<close> is called.\<close>

definition iteration ::
  "(bytes \<Rightarrow> exn + json) \<Rightarrow> fd list \<Rightarrow> pump_state \<Rightarrow> pump_state \<times> outcome option" where
  "iteration loads ready st =
     (let rs = select (rlist st) ready in handle_sock loads rs (handle_stdin rs st))"

text \<open>The loop, over the schedule of readiness the environment provides.\<close>

fun pump ::
  "(bytes \<Rightarrow> exn + json) \<Rightarrow> fd list list \<Rightarrow> pump_state \<Rightarrow> pump_state \<times> outcome" where
  "pump loads [] st = (st, Polling)"
| "pump loads (ready # sched) st =
     (case iteration loads ready st of
        (st', Some out) \<Rightarrow> (st', out)
      | (st', None) \<Rightarrow> pump loads sched st')"

text \<open>Line 161 and the state at loop entry.\<close>

definition init_state :: "bytes list \<Rightarrow> recv list \<Rightarrow> pump_state" where
  "init_state term remote =
     \<lparr>rlist = [Sock, Stdin], stdin_in = term, sock_in = remote, sent = [],
      stdout_w = [], stderr_w = [], printed = [], sock_closed = False\<rparr>"

section \<open>The rendered profile: \<^verbatim>\<open>_construct_kubeconfig\<close>, lines 22--71\<close>

definition nl :: char where "nl = CHR 0x0A"

definition sq :: string where "sq = [CHR 0x27]"

text \<open>Lines of text joined by line feeds, and text split at line feeds.\<close>

fun join_nl :: "string list \<Rightarrow> string" where
  "join_nl [] = []"
| "join_nl [l] = l"
| "join_nl (l # ls) = l @ nl # join_nl ls"

fun split_lines :: "string \<Rightarrow> string list" where
  "split_lines [] = [[]]"
| "split_lines (c # cs) =
     (if c = nl then [] # split_lines cs
      else (case split_lines cs of [] \<Rightarrow> [[c]] | l # ls \<Rightarrow> (c # l) # ls))"

text \<open>
  \<^verbatim>\<open>textwrap.dedent\<close> (the regular-expression implementation of Python up to 3.13):
  lines made only of spaces and tabs are emptied, the margin is the longest run of
  leading spaces and tabs common to the lines that have other characters, and a
  non-empty margin is removed from the lines that start with it.
\<close>

definition is_blank :: "char \<Rightarrow> bool" where
  "is_blank c = (c = CHR '' '' \<or> c = CHR 0x09)"

definition whitespace_only :: "string \<Rightarrow> bool" where
  "whitespace_only l = (l \<noteq> [] \<and> list_all is_blank l)"

definition starts_with :: "string \<Rightarrow> string \<Rightarrow> bool" where
  "starts_with s p = (take (length p) s = p)"

fun common_prefix :: "string \<Rightarrow> string \<Rightarrow> string" where
  "common_prefix (x # xs) (y # ys) = (if x = y then x # common_prefix xs ys else [])"
| "common_prefix _ _ = []"

fun update_margin :: "string option \<Rightarrow> string \<Rightarrow> string option" where
  "update_margin None indent = Some indent"
| "update_margin (Some margin) indent =
     (if starts_with indent margin then Some margin
      else if starts_with margin indent then Some indent
      else Some (common_prefix margin indent))"

definition dedent :: "string \<Rightarrow> string" where
  "dedent text =
     (let lines = map (\<lambda>l. if whitespace_only l then [] else l) (split_lines text);
          indents = map (takeWhile is_blank) (filter (\<lambda>l. dropWhile is_blank l \<noteq> []) lines);
          margin = foldl update_margin None indents
      in case margin of
           None \<Rightarrow> join_nl lines
         | Some m \<Rightarrow>
             if m \<noteq> []
             then join_nl (map (\<lambda>l. if starts_with l m then drop (length m) l else l) lines)
             else join_nl lines)"

definition region_code :: string where "region_code = ''us-west-2''"
definition cluster_name :: string where "cluster_name = ''prion-prod''"
definition open_brack :: string where "open_brack = ''{''"
definition close_brack :: string where "close_brack = ''}''"

text \<open>The f-string of lines 37--70, one list element per line of the source.\<close>

definition kubeconfig_text ::
  "string \<Rightarrow> string \<Rightarrow> string \<Rightarrow> string \<Rightarrow> string \<Rightarrow> string \<Rightarrow> string" where
  "kubeconfig_text cert_auth_data cluster_endpoint account_id access_key secret_key session_token =
     join_nl
      [''apiVersion: v1'',
       ''clusters:'',
       ''- cluster:'',
       ''    certificate-authority-data: '' @ cert_auth_data,
       ''    server: '' @ cluster_endpoint,
       ''  name: arn:aws:eks:'' @ region_code @ '':'' @ account_id @ '':cluster/'' @ cluster_name,
       ''contexts:'',
       ''- context:'',
       ''    cluster: arn:aws:eks:'' @ region_code @ '':'' @ account_id @ '':cluster/'' @ cluster_name,
       ''    user: arn:aws:eks:'' @ region_code @ '':'' @ account_id @ '':cluster/'' @ cluster_name,
       ''  name: arn:aws:eks:'' @ region_code @ '':'' @ account_id @ '':cluster/'' @ cluster_name,
       ''current-context: arn:aws:eks:'' @ region_code @ '':'' @ account_id @ '':cluster/'' @ cluster_name,
       ''kind: Config'',
       ''preferences: '' @ open_brack @ close_brack,
       ''users:'',
       ''- name: arn:aws:eks:'' @ region_code @ '':'' @ account_id @ '':cluster/'' @ cluster_name,
       ''  user:'',
       ''    exec:'',
       ''      apiVersion: client.authentication.k8s.io/v1beta1'',
       ''      command: aws'',
       ''      args:'',
       ''        - --region'',
       ''        - '' @ region_code,
       ''        - eks'',
       ''        - get-token'',
       ''        - --cluster-name'',
       ''        - '' @ cluster_name,
       ''      env:'',
       ''        - name: '' @ sq @ ''AWS_ACCESS_KEY_ID'' @ sq,
       ''          value: '' @ sq @ access_key @ sq,
       ''        - name: '' @ sq @ ''AWS_SECRET_ACCESS_KEY'' @ sq,
       ''          value: '' @ sq @ secret_key @ sq,
       ''        - name: '' @ sq @ ''AWS_SESSION_TOKEN'' @ sq,
       ''          value: '' @ sq @ session_token @ sq]"

definition construct_kubeconfig ::
  "string \<Rightarrow> string \<Rightarrow> string \<Rightarrow> string \<Rightarrow> string \<Rightarrow> string \<Rightarrow> string" where
  "construct_kubeconfig cert_auth_data cluster_endpoint account_id access_key secret_key session_token =
     dedent (kubeconfig_text cert_auth_data cluster_endpoint account_id access_key secret_key
       session_token)"

section \<open>The credential fetch: \<^verbatim>\<open>_fetch_pod_info\<close>, lines 74--101\<close>

type_synonym pod_info = "json \<times> json \<times> json \<times> json \<times> json \<times> json \<times> json"

text \<open>Lines 83--89 on the parsed response: the seven lookups, in the source's order.\<close>

definition read_fields :: "json \<Rightarrow> exn + pod_info" where
  "read_fields response =
     (case subscript response ''tmp_access_key'' of Inl e \<Rightarrow> Inl e | Inr access_key \<Rightarrow>
     (case subscript response ''tmp_secret_key'' of Inl e \<Rightarrow> Inl e | Inr secret_key \<Rightarrow>
     (case subscript response ''tmp_session_token'' of Inl e \<Rightarrow> Inl e | Inr session_token \<Rightarrow>
     (case subscript response ''cert_auth_data'' of Inl e \<Rightarrow> Inl e | Inr cert_auth_data \<Rightarrow>
     (case subscript response ''cluster_endpoint'' of Inl e \<Rightarrow> Inl e | Inr cluster_endpoint \<Rightarrow>
     (case subscript response ''namespace'' of Inl e \<Rightarrow> Inl e | Inr namespace \<Rightarrow>
     (case subscript response ''aws_account_id'' of Inl e \<Rightarrow> Inl e | Inr aws_account_id \<Rightarrow>
        Inr (access_key, secret_key, session_token, cert_auth_data, cluster_endpoint,
             namespace, aws_account_id))))))))"

text \<open>
  \<open>broker token task_name\<close> is what \<^verbatim>\<open>requests.post(...).json()\<close> yields: the parsed
  body, or the message of the exception the library raises (no connection, a body that
  is not JSON). Only a \<^verbatim>\<open>KeyError\<close> is turned into the malformed-response error.
\<close>

definition fetch_pod_info ::
  "(string \<Rightarrow> string \<Rightarrow> string + json) \<Rightarrow> string \<Rightarrow> string \<Rightarrow> exn + pod_info" where
  "fetch_pod_info broker token task_name =
     (case broker token task_name of
        Inl msg \<Rightarrow> Inl (EnvError msg)
      | Inr response \<Rightarrow>
          (case read_fields response of
             Inl (KeyError k) \<Rightarrow> Inl (MalformedResponse response)
           | Inl e \<Rightarrow> Inl e
           | Inr info \<Rightarrow> Inr info))"

section \<open>The session: \<^verbatim>\<open>execute\<close>, lines 104--211\<close>

text \<open>The file system the session touches, and the files it holds open.\<close>

record world =
  files :: "string \<rightharpoonup> string"
  open_files :: "string list"

text \<open>
  What the session takes from outside: the stored token, the broker, the helper
  \<^verbatim>\<open>account_id_from_token\<close> of \<^verbatim>\<open>latch_cli.utils\<close>, the text an f-string renders a value
  to (the identity on strings), the cluster (\<^verbatim>\<open>load_kube_config\<close> followed by \<^verbatim>\<open>stream\<close>:
  from the content of the profile file, the pod name and the namespace to the results
  the socket will deliver, or the message of the exception raised), \<^verbatim>\<open>json.loads\<close>, the
  readiness schedule and the terminal's input.
\<close>

record env =
  retrieve_or_login :: string
  broker :: "string \<Rightarrow> string \<Rightarrow> string + json"
  account_id_from_token :: "string \<Rightarrow> json"
  str_of :: "json \<Rightarrow> string"
  connect :: "string option \<Rightarrow> string \<Rightarrow> json \<Rightarrow> string + recv list"
  json_loads :: "bytes \<Rightarrow> exn + json"
  schedule :: "fd list list"
  terminal :: "bytes list"

definition config_file :: string where "config_file = ''config''"

text \<open>Lines 131--132: \<^verbatim>\<open>with open(config_file, "w") as c: c.write(config_data)\<close>. Opening
  for writing truncates, the write appends to the empty file, leaving the block closes.\<close>

definition write_config :: "world \<Rightarrow> string \<Rightarrow> world" where
  "write_config w config_data =
     (let w1 = w\<lparr>files := (files w)(config_file \<mapsto> []),
                open_files := config_file # open_files w\<rparr>;
          w2 = w1\<lparr>files := (files w1)(config_file \<mapsto>
                  (case files w1 config_file of None \<Rightarrow> config_data
                   | Some old \<Rightarrow> old @ config_data))\<rparr>
      in w2\<lparr>open_files := remove1 config_file (open_files w2)\<rparr>)"

definition execute :: "env \<Rightarrow> world \<Rightarrow> string \<Rightarrow> world \<times> pump_state option \<times> outcome" where
  "execute E w task_name =
     (let token = retrieve_or_login E in
      case fetch_pod_info (broker E) token task_name of
        Inl e \<Rightarrow> (w, None, Raised e)
      | Inr (access_key, secret_key, session_token, cert_auth_data, cluster_endpoint,
             namespace, aws_account_id) \<Rightarrow>
          (case py_int (account_id_from_token E token) of
             Inl e \<Rightarrow> (w, None, Raised e)
           | Inr n \<Rightarrow>
               let account_id =
                     (if n < 10 then CHR ''x'' # str_of E (account_id_from_token E token)
                      else str_of E (account_id_from_token E token));
                   config_data =
                     construct_kubeconfig (str_of E cert_auth_data) (str_of E cluster_endpoint)
                       (str_of E aws_account_id) (str_of E access_key) (str_of E secret_key)
                       (str_of E session_token);
                   w1 = write_config w config_data;
                   pod_name = task_name
               in (case connect E (files w1 config_file) pod_name namespace of
                     Inl msg \<Rightarrow> (w1, None, Raised (EnvError msg))
                   | Inr remote \<Rightarrow>
                       (case pump (json_loads E) (schedule E) (init_state (terminal E) remote) of
                          (st, out) \<Rightarrow> (w1, Some st, out)))))"

section \<open>The command: \<^verbatim>\<open>execute\<close> of \<^verbatim>\<open>latch_cli/main.py\<close>, lines 379--391\<close>

text \<open>
  The command calls the session inside \<^verbatim>\<open>try\<close> and drops what it returns; \<^verbatim>\<open>except
  Exception\<close> prints one line. A command that returns ends the process with status 0;
  \<^verbatim>\<open>SystemExit\<close> is not an \<^verbatim>\<open>Exception\<close> and ends the process with its code. A session that
  does not end has no exit status.
\<close>

datatype cli_msg = UnableToExec string

definition cli_exit :: "string \<Rightarrow> outcome \<Rightarrow> cli_msg list \<times> int option" where
  "cli_exit task_name res =
     (case res of
        Returned v \<Rightarrow> ([], Some 0)
      | Raised e \<Rightarrow> ([UnableToExec task_name], Some 0)
      | SysExit c \<Rightarrow> ([], Some c)
      | Polling \<Rightarrow> ([], None)
      | RecvBlocked \<Rightarrow> ([], None))"

definition main_execute ::
  "env \<Rightarrow> world \<Rightarrow> string \<Rightarrow> world \<times> pump_state option \<times> cli_msg list \<times> int option" where
  "main_execute E w task_name =
     (case execute E w task_name of (w', st, out) \<Rightarrow> (w', st, cli_exit task_name out))"

section \<open>Notions of the specification and sample inputs\<close>

text \<open>
  What the specification calls the bytes of a channel: the non-empty payloads of the
  binary frames of channel \<open>ch\<close> among the socket's results, in order of receipt.
\<close>

fun payloads_for :: "8 word \<Rightarrow> recv list \<Rightarrow> bytes list" where
  "payloads_for ch [] = []"
| "payloads_for ch (Frame opcode (c # data) # fs) =
     (if opcode = OPCODE_BINARY \<and> c = ch \<and> data \<noteq> [] then data # payloads_for ch fs
      else payloads_for ch fs)"
| "payloads_for ch (_ # fs) = payloads_for ch fs"

text \<open>The name the profile gives its cluster, its context and its user.\<close>

definition eks_arn :: "string \<Rightarrow> string" where
  "eks_arn account_id = ''arn:aws:eks:us-west-2:'' @ account_id @ '':cluster/prion-prod''"

text \<open>The seven fields the credential fetch reads.\<close>

definition required_fields :: "string list" where
  "required_fields =
     [''tmp_access_key'', ''tmp_secret_key'', ''tmp_session_token'', ''cert_auth_data'',
      ''cluster_endpoint'', ''namespace'', ''aws_account_id'']"

text \<open>Status payloads as bytes, and the value of \<^verbatim>\<open>json.loads\<close> at each of them.\<close>

definition ascii :: "string \<Rightarrow> bytes" where
  "ascii s = map of_char s"

definition payload_success :: string where
  \<open>payload_success = ''{"status":"Success"}''\<close>

definition payload_exit17 :: string where
  \<open>payload_exit17 = ''{"status":"Failure","reason":"NonZeroExitCode","details":{"causes":[{"reason":"ExitCode","message":"17"}]}}''\<close>

definition payload_other :: string where
  \<open>payload_other = ''{"status":"Failure","reason":"SomethingElse","message":"boom"}''\<close>

definition payload_no_message :: string where
  \<open>payload_no_message = ''{"status":"Failure","reason":"SomethingElse"}''\<close>

definition payload_no_reason :: string where
  \<open>payload_no_reason = ''{"status":"Failure"}''\<close>

definition payload_no_exit_cause :: string where
  \<open>payload_no_exit_cause = ''{"status":"Failure","reason":"NonZeroExitCode","details":{"causes":[{"reason":"Signal"}]}}''\<close>

definition value_success :: json where
  "value_success = JDict [(''status'', JStr ''Success'')]"

definition value_exit17 :: json where
  "value_exit17 =
     JDict [(''status'', JStr ''Failure''), (''reason'', JStr ''NonZeroExitCode''),
            (''details'', JDict [(''causes'',
               JList [JDict [(''reason'', JStr ''ExitCode''), (''message'', JStr ''17'')]])])]"

definition value_other :: json where
  "value_other =
     JDict [(''status'', JStr ''Failure''), (''reason'', JStr ''SomethingElse''),
            (''message'', JStr ''boom'')]"

definition value_no_message :: json where
  "value_no_message = JDict [(''status'', JStr ''Failure''), (''reason'', JStr ''SomethingElse'')]"

definition value_no_reason :: json where
  "value_no_reason = JDict [(''status'', JStr ''Failure'')]"

definition value_no_exit_cause :: json where
  "value_no_exit_cause =
     JDict [(''status'', JStr ''Failure''), (''reason'', JStr ''NonZeroExitCode''),
            (''details'', JDict [(''causes'', JList [JDict [(''reason'', JStr ''Signal'')]])])]"

definition sample_loads :: "bytes \<Rightarrow> exn + json" where
  "sample_loads data =
     (if data = ascii payload_success then Inr value_success
      else if data = ascii payload_exit17 then Inr value_exit17
      else if data = ascii payload_other then Inr value_other
      else if data = ascii payload_no_message then Inr value_no_message
      else if data = ascii payload_no_reason then Inr value_no_reason
      else if data = ascii payload_no_exit_cause then Inr value_no_exit_cause
      else Inl (EnvError ''JSONDecodeError''))"

text \<open>A status frame carrying the given payload text.\<close>

definition status_frame :: "string \<Rightarrow> recv" where
  "status_frame payload = Frame OPCODE_BINARY (ERROR_CHANNEL # ascii payload)"

text \<open>A complete broker response, and a sample environment around it.\<close>

definition sample_response :: json where
  "sample_response =
     JDict [(''tmp_access_key'', JStr ''AKIDSAMPLE''), (''tmp_secret_key'', JStr ''wJalrSAMPLE''),
            (''tmp_session_token'', JStr ''FwoGZSAMPLE''), (''cert_auth_data'', JStr ''LS0tLS1CRUdJTg==''),
            (''cluster_endpoint'', JStr ''https://cluster.example''), (''namespace'', JStr ''4242''),
            (''aws_account_id'', JStr ''123456789012'')]"

definition sample_str :: "json \<Rightarrow> string" where
  "sample_str v = (case v of JStr s \<Rightarrow> s | _ \<Rightarrow> ''?'')"

definition sample_env :: "json \<Rightarrow> json \<Rightarrow> recv list \<Rightarrow> env" where
  "sample_env response account remote =
     \<lparr>retrieve_or_login = ''token'',
      broker = (\<lambda>token task_name. Inr response),
      account_id_from_token = (\<lambda>token. account),
      str_of = sample_str,
      connect = (\<lambda>profile pod_name namespace.
                   case profile of None \<Rightarrow> Inl ''ConfigException'' | Some p \<Rightarrow> Inr remote),
      json_loads = sample_loads,
      schedule = [[Sock], [Sock, Stdin], [Sock]],
      terminal = []\<rparr>"

definition empty_world :: world where
  "empty_world = \<lparr>files = Map.empty, open_files = []\<rparr>"

definition sample_profile :: string where
  "sample_profile =
     construct_kubeconfig ''LS0tLS1CRUdJTg=='' ''https://cluster.example'' ''123456789012''
       ''AKIDSAMPLE'' ''wJalrSAMPLE'' ''FwoGZSAMPLE''"

text \<open>A key with a line of one space in it, and the lines of the profile around the
  access key when the other fields are \<open>C\<close>, \<open>E\<close>, \<open>1\<close>, \<open>S\<close> and \<open>T\<close>.\<close>

definition multiline_key :: string where
  "multiline_key = [CHR ''a'', nl, CHR '' '', nl, CHR ''b'']"

definition lines_before_key :: "string list" where
  "lines_before_key =
      [''apiVersion: v1'',
       ''clusters:'',
       ''- cluster:'',
       ''    certificate-authority-data: C'',
       ''    server: E'',
       ''  name: arn:aws:eks:us-west-2:1:cluster/prion-prod'',
       ''contexts:'',
       ''- context:'',
       ''    cluster: arn:aws:eks:us-west-2:1:cluster/prion-prod'',
       ''    user: arn:aws:eks:us-west-2:1:cluster/prion-prod'',
       ''  name: arn:aws:eks:us-west-2:1:cluster/prion-prod'',
       ''current-context: arn:aws:eks:us-west-2:1:cluster/prion-prod'',
       ''kind: Config'',
       ''preferences: {}'',
       ''users:'',
       ''- name: arn:aws:eks:us-west-2:1:cluster/prion-prod'',
       ''  user:'',
       ''    exec:'',
       ''      apiVersion: client.authentication.k8s.io/v1beta1'',
       ''      command: aws'',
       ''      args:'',
       ''        - --region'',
       ''        - us-west-2'',
       ''        - eks'',
       ''        - get-token'',
       ''        - --cluster-name'',
       ''        - prion-prod'',
       ''      env:'',
       ''        - name: '' @ sq @ ''AWS_ACCESS_KEY_ID'' @ sq]"

definition lines_after_key :: "string list" where
  "lines_after_key =
      [''        - name: '' @ sq @ ''AWS_SECRET_ACCESS_KEY'' @ sq,
       ''          value: '' @ sq @ ''S'' @ sq,
       ''        - name: '' @ sq @ ''AWS_SESSION_TOKEN'' @ sq,
       ''          value: '' @ sq @ ''T'' @ sq]"

section \<open>Properties\<close>

subsection \<open>Evaluation of the sample inputs\<close>

lemmas pump_eval = iteration_def select_def handle_stdin_def handle_sock_def handle_binary_def
  init_state_def OPCODE_BINARY_def OPCODE_CLOSE_def STDIN_CHANNEL_def STDOUT_CHANNEL_def
  STDERR_CHANNEL_def ERROR_CHANNEL_def status_frame_def Let_def

lemma ascii_Nil_iff [simp]: "ascii s = [] \<longleftrightarrow> s = []"
  by (simp add: ascii_def)

lemma sample_loads_values:
  "sample_loads (ascii payload_success) = Inr value_success"
  "sample_loads (ascii payload_exit17) = Inr value_exit17"
  "sample_loads (ascii payload_other) = Inr value_other"
  "sample_loads (ascii payload_no_message) = Inr value_no_message"
  "sample_loads (ascii payload_no_reason) = Inr value_no_reason"
  "sample_loads (ascii payload_no_exit_cause) = Inr value_no_exit_cause"
  by (simp_all add: sample_loads_def ascii_def payload_success_def payload_exit17_def
      payload_other_def payload_no_message_def payload_no_reason_def payload_no_exit_cause_def)

lemma decode_samples:
  "decode_status value_success = ([], Returned 0)"
  "decode_status value_exit17 = ([], Returned 17)"
  "decode_status value_other =
     ([Blank, StatusMessage (JStr ''Failure'') (JStr ''boom''), Blank], SysExit 1)"
  "decode_status value_no_message = ([Blank], Raised (KeyError ''message''))"
  "decode_status value_no_reason = ([], Raised (KeyError ''reason''))"
  "decode_status value_no_exit_cause = ([Blank], Raised (KeyError ''message''))"
  by (simp_all add: decode_status_def report_failure_def value_success_def value_exit17_def
      value_other_def value_no_message_def value_no_reason_def value_no_exit_cause_def
      int_of_str_def strip_def is_space_def parse_unsigned_def is_digit_def digit_val_def)

subsection \<open>The parts of one iteration\<close>

lemma select_iff: "f \<in> set (select rl ready) \<longleftrightarrow> f \<in> set rl \<and> f \<in> set ready"
  by (auto simp: select_def)

lemma handle_stdin_same:
  "sock_in (handle_stdin rs st) = sock_in st"
  "rlist (handle_stdin rs st) = rlist st"
  "stdout_w (handle_stdin rs st) = stdout_w st"
  "stderr_w (handle_stdin rs st) = stderr_w st"
  "printed (handle_stdin rs st) = printed st"
  "sock_closed (handle_stdin rs st) = sock_closed st"
  by (simp_all add: handle_stdin_def Let_def split: prod.splits)

lemma handle_sock_sent: "sent (fst (handle_sock loads rs st)) = sent st"
  by (simp add: handle_sock_def handle_binary_def Let_def
      split: list.splits recv.splits sum.splits prod.splits)

lemma handle_stdin_eof:
  assumes "Stdin \<in> set rs" and "fst (os_read (32 * 1024) (stdin_in st)) = []"
  shows "handle_stdin rs st = st\<lparr>stdin_in := snd (os_read (32 * 1024) (stdin_in st))\<rparr>"
  using assms by (auto simp: handle_stdin_def Let_def split: prod.splits)

lemma handle_sock_not_ready: "Sock \<notin> set rs \<Longrightarrow> handle_sock loads rs st = (st, None)"
  by (simp add: handle_sock_def)

lemma pump_eof_only:
  assumes "stdin_in st = []"
  shows "pump loads (replicate n [Stdin]) st = (st, Polling)"
proof (induction n)
  case 0
  show ?case by simp
next
  case (Suc n)
  have "iteration loads [Stdin] st = (st, None)"
    using assms by (simp add: iteration_def select_def handle_stdin_def handle_sock_def Let_def)
  with Suc show ?case by simp
qed

subsection \<open>Routing of remote output\<close>

lemma payloads_for_append: "payloads_for ch (xs @ ys) = payloads_for ch xs @ payloads_for ch ys"
  by (induction ch xs rule: payloads_for.induct) auto

lemma handle_binary_writes:
  assumes "handle_binary loads fdata st = (st', r)"
  shows "stdout_w st' = stdout_w st @ payloads_for STDOUT_CHANNEL [Frame OPCODE_BINARY fdata]"
    and "stderr_w st' = stderr_w st @ payloads_for STDERR_CHANNEL [Frame OPCODE_BINARY fdata]"
    and "sock_in st' = sock_in st"
  using assms
  by (auto simp: handle_binary_def Let_def STDOUT_CHANNEL_def STDERR_CHANNEL_def ERROR_CHANNEL_def
      split: list.splits if_splits sum.splits prod.splits)

lemma handle_sock_writes:
  assumes "handle_sock loads rs st = (st', r)"
  shows "\<exists>read. sock_in st = read @ sock_in st'
     \<and> stdout_w st' = stdout_w st @ payloads_for STDOUT_CHANNEL read
     \<and> stderr_w st' = stderr_w st @ payloads_for STDERR_CHANNEL read"
proof (cases "Sock \<in> set rs")
  case False
  with assms show ?thesis by (auto simp: handle_sock_def)
next
  case True
  show ?thesis
  proof (cases "sock_in st")
    case Nil
    with True assms show ?thesis by (auto simp: handle_sock_def)
  next
    case (Cons x pending)
    show ?thesis
    proof (cases x)
      case (RecvRaises e)
      with True Cons assms
      have "sock_in st' = pending" "stdout_w st' = stdout_w st" "stderr_w st' = stderr_w st"
        by (auto simp: handle_sock_def Let_def)
      with Cons RecvRaises show ?thesis
        by (intro exI[of _ "[x]"]) simp
    next
      case (Frame opcode fdata)
      consider "opcode = OPCODE_CLOSE" | "opcode = OPCODE_BINARY"
        | "opcode \<noteq> OPCODE_CLOSE" "opcode \<noteq> OPCODE_BINARY"
        by blast
      then show ?thesis
      proof cases
        case 1
        with True Cons Frame assms
        have "sock_in st' = pending" "stdout_w st' = stdout_w st" "stderr_w st' = stderr_w st"
          by (auto simp: handle_sock_def Let_def)
        with Cons Frame 1 show ?thesis
          by (intro exI[of _ "[x]"]) (cases fdata; simp add: OPCODE_CLOSE_def OPCODE_BINARY_def)
      next
        case 2
        with True Cons Frame assms
        have hb: "handle_binary loads fdata (st\<lparr>sock_in := pending\<rparr>) = (st', r)"
          by (auto simp: handle_sock_def Let_def OPCODE_CLOSE_def OPCODE_BINARY_def)
        from handle_binary_writes[OF hb] Cons Frame 2 show ?thesis
          by (intro exI[of _ "[x]"]) simp
      next
        case 3
        with True Cons Frame assms
        have "sock_in st' = pending" "stdout_w st' = stdout_w st" "stderr_w st' = stderr_w st"
          by (auto simp: handle_sock_def Let_def)
        with Cons Frame 3 show ?thesis
          by (intro exI[of _ "[x]"]) (cases fdata; simp)
      qed
    qed
  qed
qed

lemma iteration_writes:
  assumes "iteration loads ready st = (st', r)"
  shows "\<exists>read. sock_in st = read @ sock_in st'
     \<and> stdout_w st' = stdout_w st @ payloads_for STDOUT_CHANNEL read
     \<and> stderr_w st' = stderr_w st @ payloads_for STDERR_CHANNEL read"
  using handle_sock_writes[of loads "select (rlist st) ready"
      "handle_stdin (select (rlist st) ready) st" st' r] assms
  by (simp add: iteration_def Let_def handle_stdin_same)

text \<open>
  C6. Whatever the schedule and the frames, when the pump stops or the schedule ends, the
  results it has taken from the socket are a prefix \<open>read\<close> of what was pending, and the
  calls of \<^verbatim>\<open>os.write\<close> on the local stdout are exactly the non-empty payloads of the
  channel-1 frames of \<open>read\<close>, in the order received, those on the local stderr exactly
  the non-empty payloads of its channel-2 frames. Nothing else is written there: no
  payload of channel 3 (or of any other channel), and nothing for an empty payload.
\<close>

theorem pump_routes_output:
  assumes "pump loads sched st = (st', out)"
  shows "\<exists>read. sock_in st = read @ sock_in st'
     \<and> stdout_w st' = stdout_w st @ payloads_for STDOUT_CHANNEL read
     \<and> stderr_w st' = stderr_w st @ payloads_for STDERR_CHANNEL read"
  using assms
proof (induction sched arbitrary: st)
  case Nil
  then show ?case by (intro exI[of _ "[]"]) auto
next
  case (Cons ready sched)
  obtain st1 r where it: "iteration loads ready st = (st1, r)"
    by (cases "iteration loads ready st")
  from iteration_writes[OF it] obtain read1 where r1: "sock_in st = read1 @ sock_in st1"
    "stdout_w st1 = stdout_w st @ payloads_for STDOUT_CHANNEL read1"
    "stderr_w st1 = stderr_w st @ payloads_for STDERR_CHANNEL read1" by blast
  show ?case
  proof (cases r)
    case (Some o1)
    with it Cons.prems have "st' = st1" by simp
    with r1 show ?thesis by blast
  next
    case None
    with it Cons.prems have "pump loads sched st1 = (st', out)" by simp
    from Cons.IH[OF this] obtain read2 where r2: "sock_in st1 = read2 @ sock_in st'"
      "stdout_w st' = stdout_w st1 @ payloads_for STDOUT_CHANNEL read2"
      "stderr_w st' = stderr_w st1 @ payloads_for STDERR_CHANNEL read2" by blast
    with r1 show ?thesis
      by (intro exI[of _ "read1 @ read2"]) (simp add: payloads_for_append)
  qed
qed

theorem pump_routes_output_witness:
  "pump sample_loads [[Sock], [Sock], [Sock, Stdin], [Sock], [Sock], [Sock]]
     (init_state []
        [Frame OPCODE_BINARY (STDOUT_CHANNEL # ascii ''out1''),
         Frame OPCODE_BINARY [STDERR_CHANNEL],
         Frame OPCODE_BINARY (STDERR_CHANNEL # ascii ''err1''),
         Frame OPCODE_BINARY (STDOUT_CHANNEL # ascii ''out2''),
         status_frame payload_success,
         Frame OPCODE_BINARY (STDOUT_CHANNEL # ascii ''late'')]) =
   (\<lparr>rlist = [Sock, Stdin], stdin_in = [],
     sock_in = [Frame OPCODE_BINARY (STDOUT_CHANNEL # ascii ''late'')], sent = [],
     stdout_w = [ascii ''out1'', ascii ''out2''], stderr_w = [ascii ''err1''],
     printed = [], sock_closed = True\<rparr>, Returned 0)
   \<and> (\<exists>read.
        [Frame OPCODE_BINARY (STDOUT_CHANNEL # ascii ''out1''),
         Frame OPCODE_BINARY [STDERR_CHANNEL],
         Frame OPCODE_BINARY (STDERR_CHANNEL # ascii ''err1''),
         Frame OPCODE_BINARY (STDOUT_CHANNEL # ascii ''out2''),
         status_frame payload_success,
         Frame OPCODE_BINARY (STDOUT_CHANNEL # ascii ''late'')]
          = read @ [Frame OPCODE_BINARY (STDOUT_CHANNEL # ascii ''late'')]
        \<and> [ascii ''out1'', ascii ''out2''] = payloads_for STDOUT_CHANNEL read
        \<and> [ascii ''err1''] = payloads_for STDERR_CHANNEL read)"
proof -
  let ?frames = "[Frame OPCODE_BINARY (STDOUT_CHANNEL # ascii ''out1''),
         Frame OPCODE_BINARY [STDERR_CHANNEL],
         Frame OPCODE_BINARY (STDERR_CHANNEL # ascii ''err1''),
         Frame OPCODE_BINARY (STDOUT_CHANNEL # ascii ''out2''),
         status_frame payload_success,
         Frame OPCODE_BINARY (STDOUT_CHANNEL # ascii ''late'')]"
  let ?final = "\<lparr>rlist = [Sock, Stdin], stdin_in = [],
     sock_in = [Frame OPCODE_BINARY (STDOUT_CHANNEL # ascii ''late'')], sent = [],
     stdout_w = [ascii ''out1'', ascii ''out2''], stderr_w = [ascii ''err1''],
     printed = [], sock_closed = True\<rparr>"
  have run: "pump sample_loads [[Sock], [Sock], [Sock, Stdin], [Sock], [Sock], [Sock]]
      (init_state [] ?frames) = (?final, Returned 0)"
    by (simp add: pump_eval sample_loads_values decode_samples)
  from pump_routes_output[OF run] have "\<exists>read. ?frames = read @ sock_in ?final
        \<and> stdout_w ?final = payloads_for STDOUT_CHANNEL read
        \<and> stderr_w ?final = payloads_for STDERR_CHANNEL read"
    by (simp add: init_state_def)
  with run show ?thesis by simp
qed

text \<open>
  C8. In an iteration where the local input is ready and the read returns no bytes,
  nothing is sent to the remote stream, and the iteration is exactly what the socket
  part alone does: the end of local input never ends the loop. With the socket not ready
  the loop goes on to the next iteration with the same watched descriptors; at a
  permanent end of input, any number of iterations in which only the local input is
  ready leave the state as it is and the loop polling.
\<close>

theorem local_eof_keeps_polling:
  assumes "Stdin \<in> set (rlist st)" and "Stdin \<in> set ready"
    and "fst (os_read (32 * 1024) (stdin_in st)) = []"
  shows "sent (fst (iteration loads ready st)) = sent st
    \<and> iteration loads ready st =
        handle_sock loads (select (rlist st) ready)
          (st\<lparr>stdin_in := snd (os_read (32 * 1024) (stdin_in st))\<rparr>)
    \<and> (Sock \<notin> set ready \<longrightarrow>
         pump loads (ready # sched) st =
         pump loads sched (st\<lparr>stdin_in := snd (os_read (32 * 1024) (stdin_in st))\<rparr>))
    \<and> (stdin_in st = [] \<longrightarrow> pump loads (replicate n [Stdin]) st = (st, Polling))"
proof -
  have rs: "Stdin \<in> set (select (rlist st) ready)"
    using assms(1,2) by (simp add: select_iff)
  have it: "iteration loads ready st =
        handle_sock loads (select (rlist st) ready)
          (st\<lparr>stdin_in := snd (os_read (32 * 1024) (stdin_in st))\<rparr>)"
    using handle_stdin_eof[OF rs assms(3)] by (simp add: iteration_def Let_def)
  have "sent (fst (iteration loads ready st)) = sent st"
    by (simp add: it handle_sock_sent)
  moreover have "Sock \<notin> set ready \<longrightarrow>
         pump loads (ready # sched) st =
         pump loads sched (st\<lparr>stdin_in := snd (os_read (32 * 1024) (stdin_in st))\<rparr>)"
    by (simp add: it handle_sock_not_ready select_iff)
  ultimately show ?thesis
    using it pump_eof_only by blast
qed

theorem local_eof_keeps_polling_witness:
  "sent (fst (iteration sample_loads [Stdin] (init_state [[]] [status_frame payload_success]))) = []
   \<and> iteration sample_loads [Stdin] (init_state [[]] [status_frame payload_success])
       = (init_state [] [status_frame payload_success], None)
   \<and> pump sample_loads (replicate 5 [Stdin]) (init_state [] []) = (init_state [] [], Polling)"
proof -
  let ?st = "init_state [[]] [status_frame payload_success]"
  have h: "Stdin \<in> set (rlist ?st)" "Stdin \<in> set [Stdin]"
    "fst (os_read (32 * 1024) (stdin_in ?st)) = []"
    by (simp_all add: init_state_def)
  have h2: "Stdin \<in> set (rlist (init_state [] []))"
    "fst (os_read (32 * 1024) (stdin_in (init_state [] []))) = []"
    by (simp_all add: init_state_def)
  show ?thesis
    using local_eof_keeps_polling[OF h, of sample_loads "[]" 0]
      local_eof_keeps_polling[OF h2(1) h(2) h2(2), of sample_loads "[]" 5]
    by (simp add: init_state_def select_def handle_sock_def)
qed

subsection \<open>Status frames and protocol violations\<close>

lemma iteration_status_frame:
  assumes "Sock \<in> set (rlist st)" and "Sock \<in> set ready"
    and "sock_in st = Frame OPCODE_BINARY (ERROR_CHANNEL # data) # rest"
  shows "iteration loads ready st =
     (let st1 = (handle_stdin (select (rlist st) ready) st)\<lparr>sock_in := rest, sock_closed := True\<rparr>
      in case loads data of
           Inl e \<Rightarrow> (st1, Some (Raised e))
         | Inr error \<Rightarrow>
             (st1\<lparr>printed := printed st1 @ fst (decode_status error)\<rparr>,
              Some (snd (decode_status error))))"
  using assms
  by (simp add: iteration_def handle_sock_def handle_binary_def Let_def select_iff
      handle_stdin_same OPCODE_BINARY_def OPCODE_CLOSE_def ERROR_CHANNEL_def STDOUT_CHANNEL_def
      STDERR_CHANNEL_def split: sum.splits prod.splits)

lemma pump_status_frame:
  assumes "Sock \<in> set (rlist st)" and "Sock \<in> set ready"
    and "sock_in st = Frame OPCODE_BINARY (ERROR_CHANNEL # data) # rest"
    and "loads data = Inr error"
  shows "snd (pump loads (ready # sched) st) = snd (decode_status error)"
    and "printed (fst (pump loads (ready # sched) st)) = printed st @ fst (decode_status error)"
    and "sock_in (fst (pump loads (ready # sched) st)) = rest"
    and "sock_closed (fst (pump loads (ready # sched) st))"
  using assms(4) by (simp_all add: iteration_status_frame[OF assms(1-3)] handle_stdin_same)

lemma pump_status_frame_undecodable:
  assumes "Sock \<in> set (rlist st)" and "Sock \<in> set ready"
    and "sock_in st = Frame OPCODE_BINARY (ERROR_CHANNEL # data) # rest"
    and "loads data = Inl e"
  shows "snd (pump loads (ready # sched) st) = Raised e"
    and "sock_in (fst (pump loads (ready # sched) st)) = rest"
    and "sock_closed (fst (pump loads (ready # sched) st))"
  using assms(4) by (simp_all add: iteration_status_frame[OF assms(1-3)] handle_stdin_same)

lemma report_failure_ends: "snd (report_failure error) \<noteq> Polling \<and> snd (report_failure error) \<noteq> RecvBlocked"
  by (simp add: report_failure_def split: sum.splits)

lemma decode_status_ends: "snd (decode_status error) \<noteq> Polling \<and> snd (decode_status error) \<noteq> RecvBlocked"
  using report_failure_ends[of error]
  by (simp add: decode_status_def split: sum.splits option.splits)

lemma decode_success:
  "subscript error ''status'' = Inr (JStr ''Success'') \<Longrightarrow> decode_status error = ([], Returned 0)"
  by (simp add: decode_status_def)

lemma scan_causes_skip:
  assumes "\<forall>x\<in>set skipped. \<exists>r. subscript x ''reason'' = Inr r \<and> r \<noteq> JStr ''ExitCode''"
  shows "scan_causes (skipped @ later) = scan_causes later"
  using assms by (induction skipped) auto


lemma scan_causes_hit:
  assumes "\<forall>x\<in>set skipped. \<exists>r. subscript x ''reason'' = Inr r \<and> r \<noteq> JStr ''ExitCode''"
    and "subscript c ''reason'' = Inr (JStr ''ExitCode'')"
    and "subscript c ''message'' = Inr m" and "py_int m = Inr n"
  shows "scan_causes (skipped @ c # later) = Inr (Some n)"
  using assms by (simp add: scan_causes_skip)

lemma decode_exit_code:
  assumes "subscript error ''status'' = Inr s" and "s \<noteq> JStr ''Success''"
    and "subscript error ''reason'' = Inr (JStr ''NonZeroExitCode'')"
    and "subscript error ''details'' = Inr d"
    and "subscript d ''causes'' = Inr cs" and "py_iter cs = Inr causes"
    and "scan_causes causes = Inr (Some n)"
  shows "decode_status error = ([], Returned n)"
  using assms by (simp add: decode_status_def)

lemma decode_other_reason:
  assumes "subscript error ''status'' = Inr s" and "s \<noteq> JStr ''Success''"
    and "subscript error ''reason'' = Inr r" and "r \<noteq> JStr ''NonZeroExitCode''"
    and "subscript error ''message'' = Inr m"
  shows "decode_status error = ([Blank, StatusMessage s m, Blank], SysExit 1)"
  using assms by (simp add: decode_status_def report_failure_def)



lemma report_failure_exit:
  assumes "snd (report_failure error) = SysExit c"
  shows "c = 1 \<and> (\<exists>s m. subscript error ''status'' = Inr s \<and> subscript error ''message'' = Inr m)"
  using assms by (auto simp: report_failure_def split: sum.splits)

lemma decode_exit_needs_keys:
  assumes "snd (decode_status error) = SysExit c"
  shows "c = 1 \<and> (\<exists>s m. subscript error ''status'' = Inr s \<and> subscript error ''message'' = Inr m)"
  using assms report_failure_exit[of error c]
  by (auto simp: decode_status_def split: sum.splits if_splits option.splits)

lemma subscript_Inr_dict:
  "subscript v k = Inr x \<Longrightarrow> \<exists>kvs. v = JDict kvs \<and> map_of kvs k = Some x"
  by (cases v) (auto split: option.splits)

text \<open>
  C1 (as amended). A status frame ends the loop in the iteration that reads it, whatever
  follows in the schedule and on the socket: the pump returns, exits or raises, the
  socket has been closed and no later frame is read. When the payload parses to an
  object with a \<open>"status"\<close>: status \<open>"Success"\<close> returns 0; a failure with reason
  \<open>"NonZeroExitCode"\<close> whose first cause of reason \<open>"ExitCode"\<close> has a message that
  \<^verbatim>\<open>int()\<close> reads as \<open>n\<close> returns \<open>n\<close>; a failure with any other reason \<^emph>\<open>and a
  \<open>"message"\<close> key\<close> prints the diagnostic and calls \<^verbatim>\<open>sys.exit(1)\<close>.
\<close>

theorem status_frame_ends_session:
  assumes "Sock \<in> set (rlist st)" and "Sock \<in> set ready"
    and "sock_in st = Frame OPCODE_BINARY (ERROR_CHANNEL # data) # rest"
  shows "snd (pump loads (ready # sched) st) \<noteq> Polling
     \<and> snd (pump loads (ready # sched) st) \<noteq> RecvBlocked
     \<and> sock_in (fst (pump loads (ready # sched) st)) = rest
     \<and> sock_closed (fst (pump loads (ready # sched) st))
     \<and> (loads data = Inr error \<and> subscript error ''status'' = Inr s \<longrightarrow>
          (s = JStr ''Success'' \<longrightarrow>
             snd (pump loads (ready # sched) st) = Returned 0
             \<and> printed (fst (pump loads (ready # sched) st)) = printed st)
        \<and> (s \<noteq> JStr ''Success''
             \<and> subscript error ''reason'' = Inr (JStr ''NonZeroExitCode'')
             \<and> subscript error ''details'' = Inr d
             \<and> subscript d ''causes'' = Inr (JList (skipped @ c # later))
             \<and> (\<forall>x\<in>set skipped. \<exists>r. subscript x ''reason'' = Inr r \<and> r \<noteq> JStr ''ExitCode'')
             \<and> subscript c ''reason'' = Inr (JStr ''ExitCode'')
             \<and> subscript c ''message'' = Inr m \<and> py_int m = Inr n \<longrightarrow>
             snd (pump loads (ready # sched) st) = Returned n
             \<and> printed (fst (pump loads (ready # sched) st)) = printed st)
        \<and> (s \<noteq> JStr ''Success'' \<and> subscript error ''reason'' = Inr r
             \<and> r \<noteq> JStr ''NonZeroExitCode'' \<and> subscript error ''message'' = Inr msg \<longrightarrow>
             snd (pump loads (ready # sched) st) = SysExit 1
             \<and> printed (fst (pump loads (ready # sched) st))
                 = printed st @ [Blank, StatusMessage s msg, Blank]))"
proof -
  let ?P = "pump loads (ready # sched) st"
  have ends: "snd ?P \<noteq> Polling \<and> snd ?P \<noteq> RecvBlocked \<and> sock_in (fst ?P) = rest
      \<and> sock_closed (fst ?P)"
  proof (cases "loads data")
    case (Inl e)
    from pump_status_frame_undecodable[where loads = loads and data = data and sched = sched,
        OF assms Inl]
    show ?thesis by simp
  next
    case (Inr error)
    from pump_status_frame[where loads = loads and data = data and sched = sched, OF assms Inr]
      decode_status_ends[of error]
    show ?thesis by simp
  qed
  have cases: "(s = JStr ''Success'' \<longrightarrow> snd ?P = Returned 0 \<and> printed (fst ?P) = printed st)
        \<and> (s \<noteq> JStr ''Success''
             \<and> subscript error ''reason'' = Inr (JStr ''NonZeroExitCode'')
             \<and> subscript error ''details'' = Inr d
             \<and> subscript d ''causes'' = Inr (JList (skipped @ c # later))
             \<and> (\<forall>x\<in>set skipped. \<exists>r. subscript x ''reason'' = Inr r \<and> r \<noteq> JStr ''ExitCode'')
             \<and> subscript c ''reason'' = Inr (JStr ''ExitCode'')
             \<and> subscript c ''message'' = Inr m \<and> py_int m = Inr n \<longrightarrow>
             snd ?P = Returned n \<and> printed (fst ?P) = printed st)
        \<and> (s \<noteq> JStr ''Success'' \<and> subscript error ''reason'' = Inr r
             \<and> r \<noteq> JStr ''NonZeroExitCode'' \<and> subscript error ''message'' = Inr msg \<longrightarrow>
             snd ?P = SysExit 1
             \<and> printed (fst ?P) = printed st @ [Blank, StatusMessage s msg, Blank])"
    if ld: "loads data = Inr error" and st: "subscript error ''status'' = Inr s"
  proof -
    note run = pump_status_frame[where loads = loads and data = data and sched = sched,
        OF assms ld]
    have a: "snd ?P = Returned 0 \<and> printed (fst ?P) = printed st" if "s = JStr ''Success''"
      using that st decode_success[of error] run(1,2) by simp
    have b: "snd ?P = Returned n \<and> printed (fst ?P) = printed st"
      if "s \<noteq> JStr ''Success''" "subscript error ''reason'' = Inr (JStr ''NonZeroExitCode'')"
        "subscript error ''details'' = Inr d"
        "subscript d ''causes'' = Inr (JList (skipped @ c # later))"
        "\<forall>x\<in>set skipped. \<exists>r. subscript x ''reason'' = Inr r \<and> r \<noteq> JStr ''ExitCode''"
        "subscript c ''reason'' = Inr (JStr ''ExitCode'')"
        "subscript c ''message'' = Inr m" "py_int m = Inr n"
    proof -
      have "scan_causes (skipped @ c # later) = Inr (Some n)"
        using that(5-8) by (rule scan_causes_hit)
      then have "decode_status error = ([], Returned n)"
        using st that(1-4)
        by (intro decode_exit_code[of _ s d "JList (skipped @ c # later)"]) simp_all
      with run(1,2) show ?thesis by simp
    qed
    have c: "snd ?P = SysExit 1 \<and> printed (fst ?P) = printed st @ [Blank, StatusMessage s msg, Blank]"
      if "s \<noteq> JStr ''Success''" "subscript error ''reason'' = Inr r"
        "r \<noteq> JStr ''NonZeroExitCode''" "subscript error ''message'' = Inr msg"
      using decode_other_reason[OF st that] run(1,2) by simp
    from a b c show ?thesis by blast
  qed
  from ends cases show ?thesis by blast
qed

theorem status_frame_ends_session_witness:
  "snd (pump sample_loads [[Sock], [Sock]]
          (init_state [] [status_frame payload_success, status_frame payload_exit17])) = Returned 0
   \<and> sock_in (fst (pump sample_loads [[Sock], [Sock]]
          (init_state [] [status_frame payload_success, status_frame payload_exit17])))
       = [status_frame payload_exit17]
   \<and> snd (pump sample_loads [[Sock], [Sock]]
          (init_state [] [status_frame payload_exit17, status_frame payload_success])) = Returned 17
   \<and> snd (pump sample_loads [[Sock], [Sock]]
          (init_state [] [status_frame payload_other, status_frame payload_success])) = SysExit 1
   \<and> printed (fst (pump sample_loads [[Sock], [Sock]]
          (init_state [] [status_frame payload_other, status_frame payload_success])))
       = [Blank, StatusMessage (JStr ''Failure'') (JStr ''boom''), Blank]"
proof -
  have h1: "Sock \<in> set (rlist (init_state [] [status_frame p, q]))" for p q
    by (simp add: init_state_def)
  have h2: "Sock \<in> set [Sock]" by simp
  have h3: "sock_in (init_state [] [status_frame p, q])
      = Frame OPCODE_BINARY (ERROR_CHANNEL # ascii p) # [q]" for p q
    by (simp add: init_state_def status_frame_def)
  have i17: "py_int (JStr ''17'') = Inr 17"
    by (simp add: int_of_str_def strip_def is_space_def parse_unsigned_def is_digit_def
        digit_val_def)
  from status_frame_ends_session[where loads = sample_loads and sched = "[[Sock]]"
      and error = value_success and s = "JStr ''Success''", OF h1 h2 h3,
      of payload_success "status_frame payload_exit17"]
  have a: "snd (pump sample_loads [[Sock], [Sock]]
          (init_state [] [status_frame payload_success, status_frame payload_exit17])) = Returned 0
     \<and> sock_in (fst (pump sample_loads [[Sock], [Sock]]
          (init_state [] [status_frame payload_success, status_frame payload_exit17])))
       = [status_frame payload_exit17]"
    by (simp del: pump.simps add: sample_loads_values value_success_def)
  from status_frame_ends_session[where loads = sample_loads and sched = "[[Sock]]"
      and error = value_exit17 and s = "JStr ''Failure''" and skipped = "[]" and later = "[]"
      and d = "JDict [(''causes'',
               JList [JDict [(''reason'', JStr ''ExitCode''), (''message'', JStr ''17'')]])]"
      and c = "JDict [(''reason'', JStr ''ExitCode''), (''message'', JStr ''17'')]"
      and m = "JStr ''17''" and n = 17, OF h1 h2 h3,
      of payload_exit17 "status_frame payload_success"] i17
  have b: "snd (pump sample_loads [[Sock], [Sock]]
          (init_state [] [status_frame payload_exit17, status_frame payload_success])) = Returned 17"
    by (simp del: pump.simps py_int.simps add: sample_loads_values value_exit17_def)
  from status_frame_ends_session[where loads = sample_loads and sched = "[[Sock]]"
      and error = value_other and s = "JStr ''Failure''" and r = "JStr ''SomethingElse''"
      and msg = "JStr ''boom''", OF h1 h2 h3,
      of payload_other "status_frame payload_success"]
  have c: "snd (pump sample_loads [[Sock], [Sock]]
          (init_state [] [status_frame payload_other, status_frame payload_success])) = SysExit 1
     \<and> printed (fst (pump sample_loads [[Sock], [Sock]]
          (init_state [] [status_frame payload_other, status_frame payload_success])))
       = [Blank, StatusMessage (JStr ''Failure'') (JStr ''boom''), Blank]"
    by (simp del: pump.simps add: sample_loads_values value_other_def init_state_def)
  from a b c show ?thesis by (simp del: pump.simps)
qed

text \<open>
  The claim as stated fails for a failure payload that has a reason but no message, a
  payload the protocol description allows: the pump prints one blank line and raises
  \<^verbatim>\<open>KeyError('message')\<close>; there is no diagnostic and no \<^verbatim>\<open>sys.exit\<close>, and the command
  reports the exception and ends with status 0.
\<close>

theorem status_without_message_counterexample:
  "pump sample_loads [[Sock]] (init_state [] [status_frame payload_no_message]) =
     (\<lparr>rlist = [Sock, Stdin], stdin_in = [], sock_in = [], sent = [], stdout_w = [],
       stderr_w = [], printed = [Blank], sock_closed = True\<rparr>, Raised (KeyError ''message''))
   \<and> sample_loads (ascii payload_no_message)
       = Inr (JDict [(''status'', JStr ''Failure''), (''reason'', JStr ''SomethingElse'')])
   \<and> cli_exit ''task'' (Raised (KeyError ''message'')) = ([UnableToExec ''task''], Some 0)"
proof -
  have "sample_loads (ascii payload_no_message)
       = Inr (JDict [(''status'', JStr ''Failure''), (''reason'', JStr ''SomethingElse'')])"
    by (simp add: sample_loads_values value_no_message_def)
  moreover have "pump sample_loads [[Sock]] (init_state [] [status_frame payload_no_message]) =
     (\<lparr>rlist = [Sock, Stdin], stdin_in = [], sock_in = [], sent = [], stdout_w = [],
       stderr_w = [], printed = [Blank], sock_closed = True\<rparr>, Raised (KeyError ''message''))"
    by (simp add: pump_eval sample_loads_values decode_samples)
  ultimately show ?thesis by (simp add: cli_exit_def)
qed

text \<open>
  C5. A binary frame read from the socket whose first byte is not 1, 2 or 3 (so any id
  outside 0..3, and 0 as well), and a frame whose opcode is neither close nor binary,
  end the pump with \<^verbatim>\<open>sys.exit(1)\<close>, which ends the process with status 1. The
  diagnostic names the channel and carries the payload, or names the opcode; nothing is
  written to the local stdout or stderr.
\<close>

theorem protocol_violation_is_fatal:
  assumes "Sock \<in> set (rlist st)" and "Sock \<in> set ready"
    and "sock_in st = Frame opcode fdata # rest"
  shows "(\<forall>channel data.
            opcode = OPCODE_BINARY \<and> fdata = channel # data \<and> channel \<noteq> STDOUT_CHANNEL
            \<and> channel \<noteq> STDERR_CHANNEL \<and> channel \<noteq> ERROR_CHANNEL \<longrightarrow>
            snd (pump loads (ready # sched) st) = SysExit 1
            \<and> printed (fst (pump loads (ready # sched) st))
                = printed st @ [Blank, UnexpectedChannel channel, DataLine data, Blank])
     \<and> (opcode \<noteq> OPCODE_CLOSE \<and> opcode \<noteq> OPCODE_BINARY \<longrightarrow>
            snd (pump loads (ready # sched) st) = SysExit 1
            \<and> printed (fst (pump loads (ready # sched) st))
                = printed st @ [Blank, UnexpectedOpcode opcode, Blank])
     \<and> ((opcode \<noteq> OPCODE_CLOSE \<and> opcode \<noteq> OPCODE_BINARY)
          \<or> (opcode = OPCODE_BINARY \<and> fdata \<noteq> [] \<and> hd fdata \<noteq> STDOUT_CHANNEL
              \<and> hd fdata \<noteq> STDERR_CHANNEL \<and> hd fdata \<noteq> ERROR_CHANNEL) \<longrightarrow>
            cli_exit task_name (snd (pump loads (ready # sched) st)) = ([], Some 1)
            \<and> stdout_w (fst (pump loads (ready # sched) st)) = stdout_w st
            \<and> stderr_w (fst (pump loads (ready # sched) st)) = stderr_w st
            \<and> sock_in (fst (pump loads (ready # sched) st)) = rest)"
proof -
  let ?st0 = "handle_stdin (select (rlist st) ready) st"
  have sel: "Sock \<in> set (select (rlist st) ready)"
    using assms(1,2) by (simp add: select_iff)
  have chan: "iteration loads ready st =
      (?st0\<lparr>sock_in := rest,
            printed := printed st @ [Blank, UnexpectedChannel channel, DataLine data, Blank]\<rparr>,
       Some (SysExit 1))"
    if "opcode = OPCODE_BINARY" "fdata = channel # data" "channel \<noteq> STDOUT_CHANNEL"
      "channel \<noteq> STDERR_CHANNEL" "channel \<noteq> ERROR_CHANNEL" for channel data
    using that sel assms(3)
    by (simp add: iteration_def handle_sock_def handle_binary_def Let_def handle_stdin_same
        OPCODE_BINARY_def OPCODE_CLOSE_def)
  have opc: "iteration loads ready st =
      (?st0\<lparr>sock_in := rest, printed := printed st @ [Blank, UnexpectedOpcode opcode, Blank]\<rparr>,
       Some (SysExit 1))"
    if "opcode \<noteq> OPCODE_CLOSE" "opcode \<noteq> OPCODE_BINARY"
    using that sel assms(3)
    by (simp add: iteration_def handle_sock_def Let_def handle_stdin_same)
  have third: "cli_exit task_name (snd (pump loads (ready # sched) st)) = ([], Some 1)
            \<and> stdout_w (fst (pump loads (ready # sched) st)) = stdout_w st
            \<and> stderr_w (fst (pump loads (ready # sched) st)) = stderr_w st
            \<and> sock_in (fst (pump loads (ready # sched) st)) = rest"
    if "(opcode \<noteq> OPCODE_CLOSE \<and> opcode \<noteq> OPCODE_BINARY)
          \<or> (opcode = OPCODE_BINARY \<and> fdata \<noteq> [] \<and> hd fdata \<noteq> STDOUT_CHANNEL
              \<and> hd fdata \<noteq> STDERR_CHANNEL \<and> hd fdata \<noteq> ERROR_CHANNEL)"
    using that
  proof
    assume "opcode \<noteq> OPCODE_CLOSE \<and> opcode \<noteq> OPCODE_BINARY"
    then show ?thesis using opc by (simp add: cli_exit_def handle_stdin_same)
  next
    assume a: "opcode = OPCODE_BINARY \<and> fdata \<noteq> [] \<and> hd fdata \<noteq> STDOUT_CHANNEL
              \<and> hd fdata \<noteq> STDERR_CHANNEL \<and> hd fdata \<noteq> ERROR_CHANNEL"
    then obtain channel data where "fdata = channel # data" by (cases fdata) auto
    with a chan[of channel data] show ?thesis by (simp add: cli_exit_def handle_stdin_same)
  qed
  from chan opc third show ?thesis by simp
qed

theorem protocol_violation_is_fatal_witness:
  "pump sample_loads [[Sock], [Sock]]
      (init_state [] [Frame OPCODE_BINARY (9 # ascii ''data''), status_frame payload_success]) =
     (\<lparr>rlist = [Sock, Stdin], stdin_in = [], sock_in = [status_frame payload_success], sent = [],
       stdout_w = [], stderr_w = [],
       printed = [Blank, UnexpectedChannel 9, DataLine (ascii ''data''), Blank],
       sock_closed = False\<rparr>, SysExit 1)
   \<and> cli_exit ''task'' (snd (pump sample_loads [[Sock], [Sock]]
      (init_state [] [Frame OPCODE_BINARY (9 # ascii ''data''), status_frame payload_success])))
      = ([], Some 1)
   \<and> snd (pump sample_loads [[Sock], [Sock]]
      (init_state [] [Frame 1 (ascii ''text''), status_frame payload_success])) = SysExit 1
   \<and> printed (fst (pump sample_loads [[Sock], [Sock]]
      (init_state [] [Frame 1 (ascii ''text''), status_frame payload_success])))
      = [Blank, UnexpectedOpcode 1, Blank]"
proof -
  have h1: "Sock \<in> set (rlist (init_state [] [f, q]))" for f q
    by (simp add: init_state_def)
  have h2: "Sock \<in> set [Sock]" by simp
  have h3: "sock_in (init_state [] [Frame opc d, q]) = Frame opc d # [q]" for opc d q
    by (simp add: init_state_def)
  have run: "pump sample_loads [[Sock], [Sock]]
      (init_state [] [Frame OPCODE_BINARY (9 # ascii ''data''), status_frame payload_success]) =
     (\<lparr>rlist = [Sock, Stdin], stdin_in = [], sock_in = [status_frame payload_success], sent = [],
       stdout_w = [], stderr_w = [],
       printed = [Blank, UnexpectedChannel 9, DataLine (ascii ''data''), Blank],
       sock_closed = False\<rparr>, SysExit 1)"
    by (simp add: pump_eval)
  from protocol_violation_is_fatal[where loads = sample_loads and sched = "[[Sock]]"
      and task_name = "''task''", OF h1 h2 h3,
      of OPCODE_BINARY "9 # ascii ''data''" "status_frame payload_success"]
  have a: "cli_exit ''task'' (snd (pump sample_loads [[Sock], [Sock]]
      (init_state [] [Frame OPCODE_BINARY (9 # ascii ''data''), status_frame payload_success])))
      = ([], Some 1)"
    by (simp del: pump.simps add: STDOUT_CHANNEL_def STDERR_CHANNEL_def ERROR_CHANNEL_def
        cli_exit_def)
  from protocol_violation_is_fatal[where loads = sample_loads and sched = "[[Sock]]"
      and task_name = "''task''", OF h1 h2 h3, of 1 "ascii ''text''" "status_frame payload_success"]
  have b: "snd (pump sample_loads [[Sock], [Sock]]
      (init_state [] [Frame 1 (ascii ''text''), status_frame payload_success])) = SysExit 1
    \<and> printed (fst (pump sample_loads [[Sock], [Sock]]
      (init_state [] [Frame 1 (ascii ''text''), status_frame payload_success])))
      = [Blank, UnexpectedOpcode 1, Blank]"
    by (simp del: pump.simps add: OPCODE_BINARY_def OPCODE_CLOSE_def init_state_def)
  from run a b show ?thesis by (simp del: pump.simps)
qed



subsection \<open>The credential fetch\<close>

lemma read_fields_missing:
  assumes "k \<in> set required_fields" and "map_of kvs k = None"
  shows "\<exists>k'. read_fields (JDict kvs) = Inl (KeyError k')"
  using assms
  by (auto simp: read_fields_def required_fields_def split: option.splits)

lemma read_fields_Inr:
  assumes "read_fields response = Inr info"
  shows "\<exists>kvs a b c d e f g. response = JDict kvs \<and> info = (a, b, c, d, e, f, g)
     \<and> map_of kvs ''tmp_access_key'' = Some a \<and> map_of kvs ''tmp_secret_key'' = Some b
     \<and> map_of kvs ''tmp_session_token'' = Some c \<and> map_of kvs ''cert_auth_data'' = Some d
     \<and> map_of kvs ''cluster_endpoint'' = Some e \<and> map_of kvs ''namespace'' = Some f
     \<and> map_of kvs ''aws_account_id'' = Some g"
proof (cases response)
  case (JDict kvs)
  with assms show ?thesis
    by (auto simp: read_fields_def split: option.splits)
qed (use assms in \<open>simp_all add: read_fields_def\<close>)

text \<open>
  C3 (as amended). When the broker's response is a JSON object from which one of the
  seven required fields is absent, the fetch raises the malformed-response error (the
  \<^verbatim>\<open>ValueError\<close> of line 91) and returns nothing; when the response is not a JSON
  object, the fetch raises \<^verbatim>\<open>TypeError\<close> and returns nothing; and whenever the fetch
  returns, the response is an object holding all seven fields and the tuple is exactly
  their values: a partially populated tuple is never returned.
\<close>

theorem fetch_rejects_missing_field:
  "(post token task_name = Inr (JDict kvs) \<and> k \<in> set required_fields \<and> map_of kvs k = None
      \<longrightarrow> fetch_pod_info post token task_name = Inl (MalformedResponse (JDict kvs)))
   \<and> (post token task_name = Inr response \<and> (\<forall>kvs'. response \<noteq> JDict kvs')
      \<longrightarrow> fetch_pod_info post token task_name = Inl TypeError)
   \<and> (fetch_pod_info post token task_name = Inr info
      \<longrightarrow> (\<exists>kvs' a b c d e f g. post token task_name = Inr (JDict kvs')
            \<and> info = (a, b, c, d, e, f, g)
            \<and> map_of kvs' ''tmp_access_key'' = Some a \<and> map_of kvs' ''tmp_secret_key'' = Some b
            \<and> map_of kvs' ''tmp_session_token'' = Some c \<and> map_of kvs' ''cert_auth_data'' = Some d
            \<and> map_of kvs' ''cluster_endpoint'' = Some e \<and> map_of kvs' ''namespace'' = Some f
            \<and> map_of kvs' ''aws_account_id'' = Some g))"
proof (intro conjI impI)
  assume a: "post token task_name = Inr (JDict kvs) \<and> k \<in> set required_fields \<and> map_of kvs k = None"
  then obtain k' where "read_fields (JDict kvs) = Inl (KeyError k')"
    using read_fields_missing[of k kvs] by blast
  with a show "fetch_pod_info post token task_name = Inl (MalformedResponse (JDict kvs))"
    by (simp add: fetch_pod_info_def)
next
  assume n: "post token task_name = Inr response \<and> (\<forall>kvs'. response \<noteq> JDict kvs')"
  then have "read_fields response = Inl TypeError"
    by (cases response) (simp_all add: read_fields_def)
  with n show "fetch_pod_info post token task_name = Inl TypeError"
    by (simp add: fetch_pod_info_def)
next
  assume r: "fetch_pod_info post token task_name = Inr info"
  then obtain response where b: "post token task_name = Inr response"
    and "read_fields response = Inr info"
    by (auto simp: fetch_pod_info_def split: sum.splits exn.splits)
  from read_fields_Inr[OF this(2)] b
  show "\<exists>kvs' a b c d e f g. post token task_name = Inr (JDict kvs')
            \<and> info = (a, b, c, d, e, f, g)
            \<and> map_of kvs' ''tmp_access_key'' = Some a \<and> map_of kvs' ''tmp_secret_key'' = Some b
            \<and> map_of kvs' ''tmp_session_token'' = Some c \<and> map_of kvs' ''cert_auth_data'' = Some d
            \<and> map_of kvs' ''cluster_endpoint'' = Some e \<and> map_of kvs' ''namespace'' = Some f
            \<and> map_of kvs' ''aws_account_id'' = Some g"
    by blast
qed

theorem fetch_rejects_missing_field_witness:
  "fetch_pod_info
      (\<lambda>token task_name. Inr (JDict [(''tmp_access_key'', JStr ''AKIDSAMPLE''),
                                     (''tmp_secret_key'', JStr ''wJalrSAMPLE'')]))
      ''token'' ''task''
    = Inl (MalformedResponse (JDict [(''tmp_access_key'', JStr ''AKIDSAMPLE''),
                                     (''tmp_secret_key'', JStr ''wJalrSAMPLE'')]))
   \<and> fetch_pod_info (\<lambda>token task_name. Inr (JStr ''unavailable'')) ''token'' ''task''
    = Inl TypeError
   \<and> fetch_pod_info (\<lambda>token task_name. Inr sample_response) ''token'' ''task''
    = Inr (JStr ''AKIDSAMPLE'', JStr ''wJalrSAMPLE'', JStr ''FwoGZSAMPLE'', JStr ''LS0tLS1CRUdJTg=='',
           JStr ''https://cluster.example'', JStr ''4242'', JStr ''123456789012'')"
proof -
  have full: "fetch_pod_info (\<lambda>token task_name. Inr sample_response) ''token'' ''task''
    = Inr (JStr ''AKIDSAMPLE'', JStr ''wJalrSAMPLE'', JStr ''FwoGZSAMPLE'', JStr ''LS0tLS1CRUdJTg=='',
           JStr ''https://cluster.example'', JStr ''4242'', JStr ''123456789012'')"
    by (simp add: fetch_pod_info_def read_fields_def sample_response_def)
  from fetch_rejects_missing_field[
      where post = "\<lambda>token task_name. Inr (JDict [(''tmp_access_key'', JStr ''AKIDSAMPLE''),
                                     (''tmp_secret_key'', JStr ''wJalrSAMPLE'')])"
      and kvs = "[(''tmp_access_key'', JStr ''AKIDSAMPLE''), (''tmp_secret_key'', JStr ''wJalrSAMPLE'')]"
      and k = "''namespace''" and token = "''token''" and task_name = "''task''"]
  have missing: "fetch_pod_info
      (\<lambda>token task_name. Inr (JDict [(''tmp_access_key'', JStr ''AKIDSAMPLE''),
                                     (''tmp_secret_key'', JStr ''wJalrSAMPLE'')]))
      ''token'' ''task''
    = Inl (MalformedResponse (JDict [(''tmp_access_key'', JStr ''AKIDSAMPLE''),
                                     (''tmp_secret_key'', JStr ''wJalrSAMPLE'')]))"
    by (simp add: required_fields_def)
  from fetch_rejects_missing_field[
      where post = "\<lambda>token task_name. Inr (JStr ''unavailable'')"
      and response = "JStr ''unavailable''" and token = "''token''" and task_name = "''task''"]
  have "fetch_pod_info (\<lambda>token task_name. Inr (JStr ''unavailable'')) ''token'' ''task''
    = Inl TypeError"
    by simp
  with full missing show ?thesis by simp
qed

text \<open>
  The claim as stated fails for a response that is not a JSON object: from the empty
  list every required field is absent, the first lookup raises \<^verbatim>\<open>TypeError\<close>, which
  \<^verbatim>\<open>except KeyError\<close> does not catch, and the error raised is not the malformed-response
  error.
\<close>

theorem fetch_non_object_counterexample:
  "subscript (JList []) ''tmp_access_key'' = Inl TypeError
   \<and> fetch_pod_info (\<lambda>token task_name. Inr (JList [])) ''token'' ''task'' = Inl TypeError
   \<and> fetch_pod_info (\<lambda>token task_name. Inr (JList [])) ''token'' ''task''
       \<noteq> Inl (MalformedResponse (JList []))"
  by (simp add: fetch_pod_info_def read_fields_def)

subsection \<open>The rendered profile\<close>

lemma split_lines_nonempty: "split_lines t \<noteq> []"
  by (induction t) (auto split: list.splits)

lemma join_nl_Cons_char: "join_nl ((c # l) # ls) = c # join_nl (l # ls)"
  by (cases ls) simp_all

lemma join_nl_Cons: "ls \<noteq> [] \<Longrightarrow> join_nl (l # ls) = l @ nl # join_nl ls"
  by (cases ls) simp_all

lemma join_split: "join_nl (split_lines t) = t"
proof (induction t)
  case Nil
  show ?case by simp
next
  case (Cons c cs)
  show ?case
  proof (cases "c = nl")
    case True
    then show ?thesis using Cons split_lines_nonempty[of cs] by (simp add: join_nl_Cons)
  next
    case False
    obtain l ls where "split_lines cs = l # ls"
      using split_lines_nonempty[of cs] by (cases "split_lines cs") auto
    with False Cons show ?thesis by (simp add: join_nl_Cons_char)
  qed
qed

lemma split_lines_single: "nl \<notin> set l \<Longrightarrow> split_lines l = [l]"
  by (induction l) auto

lemma split_lines_append: "nl \<notin> set l \<Longrightarrow> split_lines (l @ nl # t) = l # split_lines t"
  by (induction l) auto

lemma split_join:
  "ls \<noteq> [] \<Longrightarrow> \<forall>l\<in>set ls. nl \<notin> set l \<Longrightarrow> split_lines (join_nl ls) = ls"
proof (induction ls rule: join_nl.induct)
  case 1
  then show ?case by simp
next
  case (2 l)
  then show ?case by (simp add: split_lines_single)
next
  case (3 l v va)
  then show ?case by (simp add: split_lines_append)
qed

lemma margin_stays_empty: "foldl update_margin (Some []) xs = Some []"
  by (induction xs) (simp_all add: starts_with_def)

lemma dedent_first_line_flush:
  assumes "split_lines t = l0 # ls" and "l0 \<noteq> []" and "\<not> is_blank (hd l0)"
  shows "dedent t = join_nl (map (\<lambda>l. if whitespace_only l then [] else l) (split_lines t))"
proof -
  from assms(2,3) have l0: "takeWhile is_blank l0 = []" "dropWhile is_blank l0 \<noteq> []"
    "\<not> whitespace_only l0"
    by (cases l0; simp add: whitespace_only_def)+
  then have "foldl update_margin None
      (map (takeWhile is_blank) (filter (\<lambda>l. dropWhile is_blank l \<noteq> [])
         (map (\<lambda>l. if whitespace_only l then [] else l) (split_lines t)))) = Some []"
    using assms(1) by (simp add: margin_stays_empty)
  then show ?thesis
    by (simp add: dedent_def)
qed

lemma dedent_unchanged:
  assumes "\<forall>l\<in>set (split_lines t). \<not> whitespace_only l"
    and "split_lines t = l0 # ls" and "l0 \<noteq> []" and "\<not> is_blank (hd l0)"
  shows "dedent t = t"
proof -
  have "map (\<lambda>l. if whitespace_only l then [] else l) (split_lines t) = split_lines t"
    using assms(1) by (simp add: map_idI)
  with dedent_first_line_flush[OF assms(2-4)] show ?thesis
    by (simp add: join_split)
qed

lemma kubeconfig_lines:
  assumes "nl \<notin> set cert_auth_data" and "nl \<notin> set cluster_endpoint" and "nl \<notin> set account_id"
    and "nl \<notin> set access_key" and "nl \<notin> set secret_key" and "nl \<notin> set session_token"
  shows "split_lines (kubeconfig_text cert_auth_data cluster_endpoint account_id access_key
            secret_key session_token) =
      [''apiVersion: v1'',
       ''clusters:'',
       ''- cluster:'',
       ''    certificate-authority-data: '' @ cert_auth_data,
       ''    server: '' @ cluster_endpoint,
       ''  name: '' @ eks_arn account_id,
       ''contexts:'',
       ''- context:'',
       ''    cluster: '' @ eks_arn account_id,
       ''    user: '' @ eks_arn account_id,
       ''  name: '' @ eks_arn account_id,
       ''current-context: '' @ eks_arn account_id,
       ''kind: Config'',
       ''preferences: {}'',
       ''users:'',
       ''- name: '' @ eks_arn account_id,
       ''  user:'',
       ''    exec:'',
       ''      apiVersion: client.authentication.k8s.io/v1beta1'',
       ''      command: aws'',
       ''      args:'',
       ''        - --region'',
       ''        - us-west-2'',
       ''        - eks'',
       ''        - get-token'',
       ''        - --cluster-name'',
       ''        - prion-prod'',
       ''      env:'',
       ''        - name: '' @ sq @ ''AWS_ACCESS_KEY_ID'' @ sq,
       ''          value: '' @ sq @ access_key @ sq,
       ''        - name: '' @ sq @ ''AWS_SECRET_ACCESS_KEY'' @ sq,
       ''          value: '' @ sq @ secret_key @ sq,
       ''        - name: '' @ sq @ ''AWS_SESSION_TOKEN'' @ sq,
       ''          value: '' @ sq @ session_token @ sq]"
  unfolding kubeconfig_text_def
  by (subst split_join)
     (use assms in \<open>simp_all add: eks_arn_def region_code_def cluster_name_def open_brack_def
        close_brack_def sq_def nl_def\<close>)

lemma kubeconfig_dedent_unchanged:
  assumes "nl \<notin> set cert_auth_data" and "nl \<notin> set cluster_endpoint" and "nl \<notin> set account_id"
    and "nl \<notin> set access_key" and "nl \<notin> set secret_key" and "nl \<notin> set session_token"
  shows "construct_kubeconfig cert_auth_data cluster_endpoint account_id access_key
            secret_key session_token =
         kubeconfig_text cert_auth_data cluster_endpoint account_id access_key
            secret_key session_token"
  unfolding construct_kubeconfig_def
  by (rule dedent_unchanged[where ?l0.0 = "''apiVersion: v1''"])
     (simp_all add: kubeconfig_lines[OF assms] whitespace_only_def is_blank_def sq_def eks_arn_def)

text \<open>
  C4 (as amended). For credential fields that contain no line feed, the profile is the
  text of the template unchanged, and its lines are the ones below: the \<open>name\<close> of the
  cluster (line 6) and the \<open>name\<close> of the context (line 11) are the same string, built
  from the account id, the region \<open>us-west-2\<close> and the cluster name \<open>prion-prod\<close>, and
  the access key, the secret key and the session token stand between the quotes of
  their \<open>value\<close> lines exactly as given.
\<close>

theorem kubeconfig_embeds_credentials:
  assumes "nl \<notin> set cert_auth_data" and "nl \<notin> set cluster_endpoint" and "nl \<notin> set account_id"
    and "nl \<notin> set access_key" and "nl \<notin> set secret_key" and "nl \<notin> set session_token"
  shows "split_lines (construct_kubeconfig cert_auth_data cluster_endpoint account_id access_key
            secret_key session_token) =
      [''apiVersion: v1'',
       ''clusters:'',
       ''- cluster:'',
       ''    certificate-authority-data: '' @ cert_auth_data,
       ''    server: '' @ cluster_endpoint,
       ''  name: '' @ eks_arn account_id,
       ''contexts:'',
       ''- context:'',
       ''    cluster: '' @ eks_arn account_id,
       ''    user: '' @ eks_arn account_id,
       ''  name: '' @ eks_arn account_id,
       ''current-context: '' @ eks_arn account_id,
       ''kind: Config'',
       ''preferences: {}'',
       ''users:'',
       ''- name: '' @ eks_arn account_id,
       ''  user:'',
       ''    exec:'',
       ''      apiVersion: client.authentication.k8s.io/v1beta1'',
       ''      command: aws'',
       ''      args:'',
       ''        - --region'',
       ''        - us-west-2'',
       ''        - eks'',
       ''        - get-token'',
       ''        - --cluster-name'',
       ''        - prion-prod'',
       ''      env:'',
       ''        - name: '' @ sq @ ''AWS_ACCESS_KEY_ID'' @ sq,
       ''          value: '' @ sq @ access_key @ sq,
       ''        - name: '' @ sq @ ''AWS_SECRET_ACCESS_KEY'' @ sq,
       ''          value: '' @ sq @ secret_key @ sq,
       ''        - name: '' @ sq @ ''AWS_SESSION_TOKEN'' @ sq,
       ''          value: '' @ sq @ session_token @ sq]"
  using kubeconfig_lines[OF assms] kubeconfig_dedent_unchanged[OF assms] by simp

theorem kubeconfig_embeds_credentials_witness:
  "split_lines sample_profile ! 5 = ''  name: arn:aws:eks:us-west-2:123456789012:cluster/prion-prod''
   \<and> split_lines sample_profile ! 10 = ''  name: arn:aws:eks:us-west-2:123456789012:cluster/prion-prod''
   \<and> split_lines sample_profile ! 29 = ''          value: '' @ sq @ ''AKIDSAMPLE'' @ sq
   \<and> split_lines sample_profile ! 31 = ''          value: '' @ sq @ ''wJalrSAMPLE'' @ sq
   \<and> split_lines sample_profile ! 33 = ''          value: '' @ sq @ ''FwoGZSAMPLE'' @ sq
   \<and> length (split_lines sample_profile) = 34"
proof -
  have "nl \<notin> set ''LS0tLS1CRUdJTg==''" "nl \<notin> set ''https://cluster.example''"
    "nl \<notin> set ''123456789012''" "nl \<notin> set ''AKIDSAMPLE''" "nl \<notin> set ''wJalrSAMPLE''"
    "nl \<notin> set ''FwoGZSAMPLE''"
    by (simp_all add: nl_def)
  from kubeconfig_embeds_credentials[OF this] show ?thesis
    by (simp add: sample_profile_def eks_arn_def)
qed

lemma split_lines_at_nl: "split_lines (p @ nl # t) = split_lines p @ split_lines t"
proof (induction p)
  case Nil
  show ?case by simp
next
  case (Cons c p)
  obtain l ls where "split_lines p = l # ls"
    using split_lines_nonempty[of p] by (cases "split_lines p") auto
  with Cons show ?case by simp
qed

lemma line_of_sublist:
  assumes "sublist (pre @ nl # l @ nl # post) t" and "nl \<notin> set l"
  shows "l \<in> set (split_lines t)"
proof -
  from assms(1) obtain p q where "t = p @ (pre @ nl # l @ nl # post) @ q"
    by (auto simp: sublist_def)
  then have "t = (p @ pre) @ nl # (l @ nl # (post @ q))" by simp
  then have "split_lines t = split_lines (p @ pre) @ split_lines l @ split_lines (post @ q)"
    by (simp only: split_lines_at_nl)
  with assms(2) show ?thesis by (simp add: split_lines_single)
qed

lemma multiline_profile:
  "construct_kubeconfig ''C'' ''E'' ''1'' multiline_key ''S'' ''T'' =
     join_nl (lines_before_key @ [''          value: '' @ sq @ ''a'', [], ''b'' @ sq] @ lines_after_key)"
proof -
  let ?lines = "lines_before_key @ [''          value: '' @ sq @ ''a'', '' '', ''b'' @ sq]
      @ lines_after_key"
  have rendered: "kubeconfig_text ''C'' ''E'' ''1'' multiline_key ''S'' ''T'' = join_nl ?lines"
    by (simp add: kubeconfig_text_def multiline_key_def region_code_def cluster_name_def
        open_brack_def close_brack_def lines_before_key_def lines_after_key_def)
  have lines: "split_lines (join_nl ?lines) = ?lines"
    by (rule split_join) (simp_all add: nl_def sq_def lines_before_key_def lines_after_key_def)
  have "?lines = ''apiVersion: v1'' # tl ?lines"
    by (simp add: lines_before_key_def)
  with lines have first: "split_lines (join_nl ?lines) = ''apiVersion: v1'' # tl ?lines"
    by (rule trans)
  have d: "dedent (join_nl ?lines) =
      join_nl (map (\<lambda>l. if whitespace_only l then [] else l) (split_lines (join_nl ?lines)))"
    by (rule dedent_first_line_flush[OF first]) (simp_all add: is_blank_def)
  show ?thesis
    unfolding construct_kubeconfig_def rendered d lines
    by (simp add: whitespace_only_def is_blank_def sq_def lines_before_key_def lines_after_key_def
        del: join_nl.simps)
qed

text \<open>
  The claim as stated fails for a key that contains a line made of one space:
  \<^verbatim>\<open>textwrap.dedent\<close> empties that line, and the access key as given occurs nowhere in
  the profile.
\<close>

theorem kubeconfig_multiline_key_counterexample:
  "construct_kubeconfig ''C'' ''E'' ''1'' multiline_key ''S'' ''T'' =
     join_nl (lines_before_key @ [''          value: '' @ sq @ ''a'', [], ''b'' @ sq] @ lines_after_key)
   \<and> \<not> sublist multiline_key (construct_kubeconfig ''C'' ''E'' ''1'' multiline_key ''S'' ''T'')"
proof -
  let ?lines = "lines_before_key @ [''          value: '' @ sq @ ''a'', [], ''b'' @ sq]
      @ lines_after_key"
  have lines: "split_lines (join_nl ?lines) = ?lines"
    by (rule split_join) (simp_all add: nl_def sq_def lines_before_key_def lines_after_key_def)
  have absent: "'' '' \<notin> set ?lines"
    by (simp add: sq_def lines_before_key_def lines_after_key_def)
  have "\<not> sublist multiline_key (join_nl ?lines)"
  proof
    assume "sublist multiline_key (join_nl ?lines)"
    then have "sublist (''a'' @ nl # '' '' @ nl # ''b'') (join_nl ?lines)"
      by (simp add: multiline_key_def)
    then have "'' '' \<in> set (split_lines (join_nl ?lines))"
      by (rule line_of_sublist) (simp add: nl_def)
    with lines absent show False by simp
  qed
  with multiline_profile show ?thesis by simp
qed

subsection \<open>The session and the command\<close>

lemma write_config_result:
  "files (write_config w config_data) = (files w)(config_file \<mapsto> config_data)"
  "open_files (write_config w config_data) = open_files w"
  by (simp_all add: write_config_def Let_def)

lemma write_config_overwrites:
  "write_config (w\<lparr>files := (files w)(config_file := old)\<rparr>) config_data = write_config w config_data"
  by (simp add: write_config_def Let_def)

lemma execute_sample:
  assumes "py_int account = Inr n"
  shows "execute (sample_env sample_response account remote) w task_name =
     (write_config w sample_profile,
      Some (fst (pump sample_loads [[Sock], [Sock, Stdin], [Sock]] (init_state [] remote))),
      snd (pump sample_loads [[Sock], [Sock, Stdin], [Sock]] (init_state [] remote)))"
  using assms
  by (simp add: execute_def sample_env_def fetch_pod_info_def read_fields_def sample_response_def
      sample_str_def sample_profile_def write_config_result Let_def split: prod.splits
      del: pump.simps)

lemma iteration_exit_code:
  assumes "iteration loads ready st = (st', Some (SysExit c))"
  shows "c = 1"
proof -
  have dec: "c = 1" if "decode_status error = (ls, SysExit c)" for error ls
    using that decode_exit_needs_keys[of error c] by simp
  have bin: "c = 1" if "handle_binary loads fdata s = (st', Some (SysExit c))" for fdata s
    using that
    by (auto simp: handle_binary_def Let_def dest: dec
        split: list.splits if_splits sum.splits prod.splits)
  from assms show ?thesis
    by (auto simp: iteration_def handle_sock_def Let_def dest: bin
        split: if_splits list.splits recv.splits)
qed

lemma pump_exit_code:
  assumes "pump loads sched st = (st', SysExit c)"
  shows "c = 1"
  using assms
proof (induction sched arbitrary: st)
  case Nil
  then show ?case by simp
next
  case (Cons ready sched)
  obtain st1 r where it: "iteration loads ready st = (st1, r)"
    by (cases "iteration loads ready st")
  show ?case
  proof (cases r)
    case None
    with it Cons.prems have "pump loads sched st1 = (st', SysExit c)" by simp
    then show ?thesis by (rule Cons.IH)
  next
    case (Some out)
    with it Cons.prems have "iteration loads ready st = (st', Some (SysExit c))" by simp
    then show ?thesis by (rule iteration_exit_code)
  qed
qed

lemma execute_exit_code:
  assumes "snd (snd (execute E w task_name)) = SysExit c"
  shows "c = 1"
  using assms pump_exit_code[of "json_loads E" "schedule E" _ _ c]
  by (auto simp: execute_def Let_def split: sum.splits prod.splits)

text \<open>
  C2 (as amended). At the command, the exit status is 0 when the session returns 0 (the
  remote process succeeded); it is 1 whenever the session ends in \<^verbatim>\<open>sys.exit\<close>, which it
  only ever calls with 1 (unexpected channel, unexpected opcode, failure status without
  an exit code); and when the session raises an exception (a transport error, a
  malformed response, a missing key) the command prints its one line and the status
  is 0.
\<close>

theorem command_exit_status:
  "(snd (snd (execute E w task_name)) = Returned 0 \<longrightarrow>
      snd (snd (main_execute E w task_name)) = ([], Some 0))
   \<and> (snd (snd (execute E w task_name)) = SysExit c \<longrightarrow>
      c = 1 \<and> snd (snd (main_execute E w task_name)) = ([], Some 1))
   \<and> (snd (snd (execute E w task_name)) = Raised e \<longrightarrow>
      snd (snd (main_execute E w task_name)) = ([UnableToExec task_name], Some 0))"
  using execute_exit_code[of E w task_name c]
  by (auto simp: main_execute_def cli_exit_def split: prod.splits)

theorem command_exit_status_witness:
  "snd (snd (execute (sample_env sample_response (JStr ''7'') [status_frame payload_success])
        empty_world ''task'')) = Returned 0
   \<and> snd (snd (main_execute (sample_env sample_response (JStr ''7'') [status_frame payload_success])
        empty_world ''task'')) = ([], Some 0)
   \<and> snd (snd (execute (sample_env sample_response (JStr ''7'') [Frame OPCODE_BINARY [9]])
        empty_world ''task'')) = SysExit 1
   \<and> snd (snd (main_execute (sample_env sample_response (JStr ''7'') [Frame OPCODE_BINARY [9]])
        empty_world ''task'')) = ([], Some 1)
   \<and> snd (snd (execute (sample_env (JDict []) (JStr ''7'') []) empty_world ''task''))
       = Raised (MalformedResponse (JDict []))
   \<and> snd (snd (main_execute (sample_env (JDict []) (JStr ''7'') []) empty_world ''task''))
       = ([UnableToExec ''task''], Some 0)"
proof -
  have i7: "py_int (JStr ''7'') = Inr 7"
    by (simp add: int_of_str_def strip_def is_space_def parse_unsigned_def is_digit_def
        digit_val_def)
  have a: "snd (snd (execute (sample_env sample_response (JStr ''7'') [status_frame payload_success])
        empty_world ''task'')) = Returned 0"
    by (simp add: execute_sample[OF i7] pump_eval sample_loads_values decode_samples)
  have b: "snd (snd (execute (sample_env sample_response (JStr ''7'') [Frame OPCODE_BINARY [9]])
        empty_world ''task'')) = SysExit 1"
    by (simp add: execute_sample[OF i7] pump_eval)
  have c: "snd (snd (execute (sample_env (JDict []) (JStr ''7'') []) empty_world ''task''))
       = Raised (MalformedResponse (JDict []))"
    by (simp add: execute_def sample_env_def fetch_pod_info_def read_fields_def)
  from a b c
    command_exit_status[of "sample_env sample_response (JStr ''7'') [status_frame payload_success]"
      empty_world "''task''"]
    command_exit_status[of "sample_env sample_response (JStr ''7'') [Frame OPCODE_BINARY [9]]"
      empty_world "''task''" 1]
    command_exit_status[of "sample_env (JDict []) (JStr ''7'') []" empty_world "''task''" _
      "MalformedResponse (JDict [])"]
  show ?thesis by simp
qed

text \<open>
  The claim as stated fails twice. A session that decodes the remote exit code 17
  returns 17, and the command drops the value: the exit status is 0. A session whose
  socket raises a transport error is caught by \<^verbatim>\<open>except Exception\<close>: the exit status
  is 0, not 1.
\<close>

theorem command_exit_status_counterexample:
  "snd (snd (execute (sample_env sample_response (JStr ''7'') [status_frame payload_exit17])
        empty_world ''task'')) = Returned 17
   \<and> snd (snd (main_execute (sample_env sample_response (JStr ''7'') [status_frame payload_exit17])
        empty_world ''task'')) = ([], Some 0)
   \<and> snd (snd (execute (sample_env sample_response (JStr ''7'')
        [RecvRaises (EnvError ''WebSocketConnectionClosedException'')]) empty_world ''task''))
       = Raised (EnvError ''WebSocketConnectionClosedException'')
   \<and> snd (snd (main_execute (sample_env sample_response (JStr ''7'')
        [RecvRaises (EnvError ''WebSocketConnectionClosedException'')]) empty_world ''task''))
       = ([UnableToExec ''task''], Some 0)"
proof -
  have i7: "py_int (JStr ''7'') = Inr 7"
    by (simp add: int_of_str_def strip_def is_space_def parse_unsigned_def is_digit_def
        digit_val_def)
  show ?thesis
    by (simp add: main_execute_def cli_exit_def execute_sample[OF i7] pump_eval
        sample_loads_values decode_samples)
qed

text \<open>
  C7 (as amended). The file handle is released on every path. The file itself is never
  removed: outside the profile path the session changes no file; a session that fails
  in the credential fetch or in the account-id check leaves every file as it found it;
  a session that gets past both leaves at the profile path the profile it rendered
  from the broker's fields, whatever was there before and however the session ends;
  after every session that reached the pump the file exists. What the session finds at
  the profile path has no influence on what it does: it overwrites before it loads.
\<close>

theorem profile_file_overwritten_not_removed:
  "open_files (fst (execute E w task_name)) = open_files w
   \<and> (p \<noteq> config_file \<longrightarrow> files (fst (execute E w task_name)) p = files w p)
   \<and> (fetch_pod_info (broker E) (retrieve_or_login E) task_name = Inl e \<longrightarrow>
        execute E w task_name = (w, None, Raised e))
   \<and> (fetch_pod_info (broker E) (retrieve_or_login E) task_name = Inr info
       \<and> py_int (account_id_from_token E (retrieve_or_login E)) = Inl e \<longrightarrow>
        execute E w task_name = (w, None, Raised e))
   \<and> (fetch_pod_info (broker E) (retrieve_or_login E) task_name
         = Inr (access_key, secret_key, session_token, cert_auth_data, cluster_endpoint,
                namespace, aws_account_id)
       \<and> py_int (account_id_from_token E (retrieve_or_login E)) = Inr n \<longrightarrow>
        files (fst (execute E w task_name)) config_file
          = Some (construct_kubeconfig (str_of E cert_auth_data) (str_of E cluster_endpoint)
                    (str_of E aws_account_id) (str_of E access_key) (str_of E secret_key)
                    (str_of E session_token)))
   \<and> (files (fst (execute E w task_name)) config_file = files w config_file
       \<or> (\<exists>profile. files (fst (execute E w task_name)) config_file = Some profile
            \<and> files (fst (execute E (w\<lparr>files := (files w)(config_file := old)\<rparr>) task_name))
                 config_file = Some profile))
   \<and> (fst (snd (execute E w task_name)) \<noteq> None \<longrightarrow>
        files (fst (execute E w task_name)) config_file \<noteq> None)
   \<and> snd (execute E (w\<lparr>files := (files w)(config_file := old)\<rparr>) task_name)
       = snd (execute E w task_name)"
proof -
  have early: "execute E w task_name = (w, None, Raised e)"
    if "fetch_pod_info (broker E) (retrieve_or_login E) task_name = Inl e"
    using that by (simp add: execute_def Let_def)
  have bad_id: "execute E w task_name = (w, None, Raised e)"
    if "fetch_pod_info (broker E) (retrieve_or_login E) task_name = Inr info"
      "py_int (account_id_from_token E (retrieve_or_login E)) = Inl e"
    using that by (simp add: execute_def Let_def split: prod.splits)
  have written: "files (fst (execute E w task_name)) config_file
          = Some (construct_kubeconfig (str_of E cert_auth_data) (str_of E cluster_endpoint)
                    (str_of E aws_account_id) (str_of E access_key) (str_of E secret_key)
                    (str_of E session_token))"
    if "fetch_pod_info (broker E) (retrieve_or_login E) task_name
         = Inr (access_key, secret_key, session_token, cert_auth_data, cluster_endpoint,
                namespace, aws_account_id)"
      "py_int (account_id_from_token E (retrieve_or_login E)) = Inr n"
    using that
    by (simp add: execute_def Let_def write_config_result split: sum.splits prod.splits)
  have rest: "open_files (fst (execute E w task_name)) = open_files w
   \<and> (p \<noteq> config_file \<longrightarrow> files (fst (execute E w task_name)) p = files w p)
   \<and> (files (fst (execute E w task_name)) config_file = files w config_file
       \<or> (\<exists>profile. files (fst (execute E w task_name)) config_file = Some profile
            \<and> files (fst (execute E (w\<lparr>files := (files w)(config_file := old)\<rparr>) task_name))
                 config_file = Some profile))
   \<and> (fst (snd (execute E w task_name)) \<noteq> None \<longrightarrow>
        files (fst (execute E w task_name)) config_file \<noteq> None)
   \<and> snd (execute E (w\<lparr>files := (files w)(config_file := old)\<rparr>) task_name)
       = snd (execute E w task_name)"
    by (simp add: execute_def Let_def write_config_result write_config_overwrites
        split: sum.splits prod.splits)
  from early bad_id written rest show ?thesis by blast
qed

theorem profile_file_overwritten_not_removed_witness:
  "open_files (fst (execute (sample_env sample_response (JStr ''7'') [status_frame payload_success])
        empty_world ''task'')) = []
   \<and> files (fst (execute (sample_env sample_response (JStr ''7'') [status_frame payload_success])
        empty_world ''task'')) config_file = Some sample_profile
   \<and> execute (sample_env (JDict []) (JStr ''7'') [])
        (empty_world\<lparr>files := (files empty_world)(config_file := Some ''stale'')\<rparr>) ''task''
       = (empty_world\<lparr>files := (files empty_world)(config_file := Some ''stale'')\<rparr>, None,
          Raised (MalformedResponse (JDict [])))
   \<and> execute (sample_env sample_response (JStr ''abc'') [])
        (empty_world\<lparr>files := (files empty_world)(config_file := Some ''stale'')\<rparr>) ''task''
       = (empty_world\<lparr>files := (files empty_world)(config_file := Some ''stale'')\<rparr>, None,
          Raised ValueError)
   \<and> snd (execute (sample_env sample_response (JStr ''7'') [status_frame payload_success])
        (empty_world\<lparr>files := (files empty_world)(config_file := Some ''stale'')\<rparr>) ''task'')
       = snd (execute (sample_env sample_response (JStr ''7'') [status_frame payload_success])
        empty_world ''task'')"
proof -
  let ?stale = "empty_world\<lparr>files := (files empty_world)(config_file := Some ''stale'')\<rparr>"
  let ?E = "sample_env sample_response (JStr ''7'') [status_frame payload_success]"
  have i7: "py_int (account_id_from_token ?E (retrieve_or_login ?E)) = Inr 7"
    by (simp add: sample_env_def int_of_str_def strip_def is_space_def parse_unsigned_def
        is_digit_def digit_val_def)
  have iabc: "py_int (account_id_from_token (sample_env sample_response (JStr ''abc'') [])
      (retrieve_or_login (sample_env sample_response (JStr ''abc'') []))) = Inl ValueError"
    by (simp add: sample_env_def int_of_str_def strip_def is_space_def parse_unsigned_def
        is_digit_def)
  have f: "fetch_pod_info (broker (sample_env sample_response a r))
        (retrieve_or_login (sample_env sample_response a r)) ''task''
      = Inr (JStr ''AKIDSAMPLE'', JStr ''wJalrSAMPLE'', JStr ''FwoGZSAMPLE'',
             JStr ''LS0tLS1CRUdJTg=='', JStr ''https://cluster.example'', JStr ''4242'',
             JStr ''123456789012'')" for a r
    by (simp add: sample_env_def fetch_pod_info_def read_fields_def sample_response_def)
  have g: "fetch_pod_info (broker (sample_env (JDict []) (JStr ''7'') []))
        (retrieve_or_login (sample_env (JDict []) (JStr ''7'') [])) ''task''
      = Inl (MalformedResponse (JDict []))"
    by (simp add: sample_env_def fetch_pod_info_def read_fields_def)
  have s: "str_of ?E (JStr x) = x" for x
    by (simp add: sample_env_def sample_str_def)
  from profile_file_overwritten_not_removed[where E = ?E and w = empty_world
      and task_name = "''task''" and p = config_file and old = "Some ''stale''" and n = 7
      and access_key = "JStr ''AKIDSAMPLE''" and secret_key = "JStr ''wJalrSAMPLE''"
      and session_token = "JStr ''FwoGZSAMPLE''" and cert_auth_data = "JStr ''LS0tLS1CRUdJTg==''"
      and cluster_endpoint = "JStr ''https://cluster.example''" and namespace = "JStr ''4242''"
      and aws_account_id = "JStr ''123456789012''"] f[of "JStr ''7''"] i7
  have a: "open_files (fst (execute ?E empty_world ''task'')) = []
     \<and> files (fst (execute ?E empty_world ''task'')) config_file = Some sample_profile
     \<and> snd (execute ?E ?stale ''task'') = snd (execute ?E empty_world ''task'')"
    by (simp add: s sample_profile_def empty_world_def)
  from profile_file_overwritten_not_removed[
      where E = "sample_env (JDict []) (JStr ''7'') []" and w = ?stale
      and task_name = "''task''" and e = "MalformedResponse (JDict [])"] g
  have b: "execute (sample_env (JDict []) (JStr ''7'') []) ?stale ''task''
       = (?stale, None, Raised (MalformedResponse (JDict [])))"
    by simp
  from profile_file_overwritten_not_removed[
      where E = "sample_env sample_response (JStr ''abc'') []" and w = ?stale
      and task_name = "''task''" and e = ValueError
      and info = "(JStr ''AKIDSAMPLE'', JStr ''wJalrSAMPLE'', JStr ''FwoGZSAMPLE'',
             JStr ''LS0tLS1CRUdJTg=='', JStr ''https://cluster.example'', JStr ''4242'',
             JStr ''123456789012'')"] f[of "JStr ''abc''"] iabc
  have c: "execute (sample_env sample_response (JStr ''abc'') []) ?stale ''task''
       = (?stale, None, Raised ValueError)"
    by simp
  from a b c show ?thesis by simp
qed

text \<open>
  The claim as stated fails: after a session that succeeded the file holds that
  session's credentials, and a following session that fails in the credential fetch
  leaves it there: the file is neither removed nor overwritten on the next run.
\<close>

theorem profile_file_left_behind_counterexample:
  "snd (snd (execute (sample_env sample_response (JStr ''7'') [status_frame payload_success])
        empty_world ''task-a'')) = Returned 0
   \<and> files (fst (execute (sample_env sample_response (JStr ''7'') [status_frame payload_success])
        empty_world ''task-a'')) config_file = Some sample_profile
   \<and> snd (snd (execute (sample_env (JDict []) (JStr ''7'') [])
        (fst (execute (sample_env sample_response (JStr ''7'') [status_frame payload_success])
           empty_world ''task-a'')) ''task-b'')) = Raised (MalformedResponse (JDict []))
   \<and> files (fst (execute (sample_env (JDict []) (JStr ''7'') [])
        (fst (execute (sample_env sample_response (JStr ''7'') [status_frame payload_success])
           empty_world ''task-a'')) ''task-b'')) config_file = Some sample_profile"
proof -
  have i7: "py_int (JStr ''7'') = Inr 7"
    by (simp add: int_of_str_def strip_def is_space_def parse_unsigned_def is_digit_def
        digit_val_def)
  have second: "execute (sample_env (JDict []) (JStr ''7'') []) w ''task-b''
      = (w, None, Raised (MalformedResponse (JDict [])))" for w
    by (simp add: execute_def sample_env_def fetch_pod_info_def read_fields_def)
  show ?thesis
    by (simp add: second execute_sample[OF i7] write_config_result pump_eval
        sample_loads_values decode_samples)
qed

text \<open>
  C9 (as amended). Two runs that differ only in the account id derived from the token,
  both ids being values that \<^verbatim>\<open>int()\<close> accepts, are the same run: the same files, the
  same pump state with everything sent, written and printed, the same outcome, the
  same exit status. The profile is rendered from the broker's \<open>aws_account_id\<close> alone.
\<close>

theorem token_account_id_unused:
  assumes "py_int (f1 (retrieve_or_login E)) = Inr n1"
    and "py_int (f2 (retrieve_or_login E)) = Inr n2"
  shows "execute (E\<lparr>account_id_from_token := f1\<rparr>) w task_name
           = execute (E\<lparr>account_id_from_token := f2\<rparr>) w task_name
     \<and> main_execute (E\<lparr>account_id_from_token := f1\<rparr>) w task_name
           = main_execute (E\<lparr>account_id_from_token := f2\<rparr>) w task_name"
  using assms
  by (simp add: main_execute_def execute_def Let_def split: sum.splits prod.splits)

theorem token_account_id_unused_witness:
  "execute (sample_env sample_response (JStr ''7'') [status_frame payload_exit17]) empty_world ''task''
    = execute (sample_env sample_response (JStr ''123456'') [status_frame payload_exit17])
        empty_world ''task''
   \<and> py_int (JStr ''7'') = Inr 7 \<and> py_int (JStr ''123456'') = Inr 123456"
proof -
  let ?E = "sample_env sample_response JNull [status_frame payload_exit17]"
  have i: "py_int (JStr ''7'') = Inr 7" "py_int (JStr ''123456'') = Inr 123456"
    by (simp_all add: int_of_str_def strip_def is_space_def parse_unsigned_def is_digit_def
        digit_val_def)
  have e: "?E\<lparr>account_id_from_token := \<lambda>token. a\<rparr>
      = sample_env sample_response a [status_frame payload_exit17]" for a
    by (simp add: sample_env_def)
  from token_account_id_unused[of "\<lambda>token. JStr ''7''" ?E 7 "\<lambda>token. JStr ''123456''" 123456
      empty_world "''task''", OF i]
  have "execute (sample_env sample_response (JStr ''7'') [status_frame payload_exit17])
          empty_world ''task''
    = execute (sample_env sample_response (JStr ''123456'') [status_frame payload_exit17])
        empty_world ''task''"
    by (simp only: e simp_thms)
  with i show ?thesis by simp
qed

text \<open>
  The claim as stated fails for an account id that \<^verbatim>\<open>int()\<close> rejects: line 118 raises
  \<^verbatim>\<open>ValueError\<close> before any profile is written, while the run with a numeric id writes
  the profile and runs the session.
\<close>

theorem token_account_id_counterexample:
  "execute (sample_env sample_response (JStr ''abc'') [status_frame payload_success])
      empty_world ''task'' = (empty_world, None, Raised ValueError)
   \<and> snd (snd (execute (sample_env sample_response (JStr ''7'') [status_frame payload_success])
      empty_world ''task'')) = Returned 0
   \<and> files (fst (execute (sample_env sample_response (JStr ''7'') [status_frame payload_success])
      empty_world ''task'')) config_file = Some sample_profile
   \<and> files empty_world config_file = None"
proof -
  have i7: "py_int (JStr ''7'') = Inr 7"
    by (simp add: int_of_str_def strip_def is_space_def parse_unsigned_def is_digit_def
        digit_val_def)
  have iabc: "py_int (JStr ''abc'') = Inl ValueError"
    by (simp add: int_of_str_def strip_def is_space_def parse_unsigned_def is_digit_def)
  have "execute (sample_env sample_response (JStr ''abc'') [status_frame payload_success])
      empty_world ''task'' = (empty_world, None, Raised ValueError)"
    using iabc
    by (simp add: execute_def sample_env_def fetch_pod_info_def read_fields_def
        sample_response_def del: py_int.simps)
  then show ?thesis
    by (simp add: execute_sample[OF i7] write_config_result pump_eval sample_loads_values
        decode_samples empty_world_def)
qed

end
